theory Spec2Isabelle
  imports Complex_Main "HOL-Library.Multiset"
begin

section \<open>JavaScript values\<close>

text \<open>
  \<^verbatim>\<open>displayResults(data)\<close> of \<^verbatim>\<open>src/static/app.js\<close> receives whatever
  \<^verbatim>\<open>response.json()\<close> produced, so the model works on untyped JavaScript values:
  the values of \<^verbatim>\<open>JSON.parse\<close>, and \<^verbatim>\<open>undefined\<close> (the result of reading a
  missing property). Functions, symbols and bigints cannot come out of JSON and are left out.

  A Number is \<open>NaN\<close>, an infinity, the negative zero \<open>-0\<close> (\<open>NegZero\<close>), or a finite
  value given by the rational it denotes (every binary64 value is a rational; \<open>Fin 0\<close> is
  \<open>+0\<close>). Strings are lists of 8-bit characters (code units up to U+00FF).
  An object is the list of its own properties (\<open>map_of\<close> reads it), an array the list of
  its elements.
\<close>

datatype jsnum = NaN | PosInf | NegInf | NegZero | Fin rat

datatype jsval =
    JUndefined
  | JNull
  | JBool bool
  | JNum jsnum
  | JStr string
  | JArr "jsval list"
  | JObj "(string \<times> jsval) list"

datatype exc = TypeError

text \<open>Sequencing of steps that may throw: the first exception ends the computation.\<close>

definition bindE :: "exc + 'a \<Rightarrow> ('a \<Rightarrow> exc + 'b) \<Rightarrow> exc + 'b" where
  "bindE m f = (case m of Inl e \<Rightarrow> Inl e | Inr x \<Rightarrow> f x)"

text \<open>
  Property read \<^verbatim>\<open>v.name\<close>. Reading a property of \<^verbatim>\<open>null\<close> or \<^verbatim>\<open>undefined\<close> throws a
  TypeError. The names the program reads (\<^verbatim>\<open>detail\<close>, \<^verbatim>\<open>Rank\<close>, \<^verbatim>\<open>Date\<close>,
  \<^verbatim>\<open>Open\<close>, \<^verbatim>\<open>High\<close>, \<^verbatim>\<open>Low\<close>, \<^verbatim>\<open>Close\<close>, \<^verbatim>\<open>Volume\<close>, \<^verbatim>\<open>Similarity\<close>,
  \<^verbatim>\<open>Variance\<close>) are defined on no built-in prototype, so on a primitive, an array or an
  object without that own property the read gives \<^verbatim>\<open>undefined\<close>.
\<close>

fun getProp :: "jsval \<Rightarrow> string \<Rightarrow> exc + jsval" where
  "getProp JUndefined name = Inl TypeError"
| "getProp JNull name = Inl TypeError"
| "getProp (JObj props) name = Inr (case map_of props name of None \<Rightarrow> JUndefined | Some v \<Rightarrow> v)"
| "getProp v name = Inr JUndefined"

text \<open>ToBoolean, as \<^verbatim>\<open>if (data.detail)\<close> applies it.\<close>

fun truthy :: "jsval \<Rightarrow> bool" where
  "truthy JUndefined = False"
| "truthy JNull = False"
| "truthy (JBool b) = b"
| "truthy (JNum NaN) = False"
| "truthy (JNum NegZero) = False"
| "truthy (JNum (Fin q)) = (q \<noteq> 0)"
| "truthy (JNum x) = True"
| "truthy (JStr s) = (s \<noteq> [])"
| "truthy (JArr xs) = True"
| "truthy (JObj props) = True"

text \<open>The operator \<^verbatim>\<open>a ?? b\<close>: \<open>b\<close> only when \<open>a\<close> is \<^verbatim>\<open>null\<close> or \<^verbatim>\<open>undefined\<close>.\<close>

fun nullish :: "jsval \<Rightarrow> bool" where
  "nullish JUndefined = True"
| "nullish JNull = True"
| "nullish v = False"

definition coalesce :: "jsval \<Rightarrow> jsval \<Rightarrow> jsval" where
  "coalesce a b = (if nullish a then b else a)"

text \<open>\<^verbatim>\<open>Array.isArray\<close> and the \<^verbatim>\<open>length\<close> of an array.\<close>

fun isArray :: "jsval \<Rightarrow> bool" where
  "isArray (JArr xs) = True"
| "isArray v = False"

fun elements :: "jsval \<Rightarrow> jsval list" where
  "elements (JArr xs) = xs"
| "elements v = []"

section \<open>Numbers: rounding, printing, parsing\<close>

definition pow10 :: "int \<Rightarrow> rat" where
  "pow10 e = (if 0 \<le> e then 10 ^ nat e else 1 / 10 ^ nat (- e))"

definition pow2 :: "int \<Rightarrow> rat" where
  "pow2 e = (if 0 \<le> e then 2 ^ nat e else 1 / 2 ^ nat (- e))"

text \<open>The number of base-\<open>b\<close> digits of \<open>n\<close>, and from it \<open>\<lfloor>log\<^sub>b a\<rfloor>\<close> for a rational \<open>a > 0\<close>.\<close>

function digitCount :: "nat \<Rightarrow> nat \<Rightarrow> nat" where
  "digitCount b n = (if 1 < b \<and> 0 < n then Suc (digitCount b (n div b)) else 0)"
  by pat_completeness auto
termination
  by (relation "measure snd") auto

declare digitCount.simps [simp del]

definition ilog :: "nat \<Rightarrow> rat \<Rightarrow> int" where
  "ilog b a = (if 1 \<le> a then int (digitCount b (nat \<lfloor>a\<rfloor>)) - 1
               else - int (digitCount b (nat \<lceil>1 / a\<rceil> - 1)))"

definition roundHalfEven :: "rat \<Rightarrow> int" where
  "roundHalfEven m = (let f = \<lfloor>m\<rfloor>; d = m - of_int f in
     if d < 1 / 2 then f else if 1 / 2 < d then f + 1 else if even f then f else f + 1)"

text \<open>
  The Number value for a real: IEEE 754 binary64, round to nearest, ties to even. The unit
  in the last place is \<open>2\<^sup>e\<^sup>-\<^sup>5\<^sup>2\<close> with \<open>e\<close> the binary exponent, at least \<open>-1022\<close>
  (subnormals); a result of \<open>2\<^sup>1\<^sup>0\<^sup>2\<^sup>4\<close> or more is an infinity, and a negative real
  that rounds to zero gives \<open>-0\<close>.
\<close>

definition roundF :: "rat \<Rightarrow> jsnum" where
  "roundF q = (if q = 0 then Fin 0 else
     let a = \<bar>q\<bar>;
         e = max (ilog 2 a) (- 1022);
         u = pow2 (e - 52);
         n = roundHalfEven (a / u)
     in if 1023 < e \<or> (e = 1023 \<and> n = 2 ^ 53) then (if q < 0 then NegInf else PosInf)
        else if n = 0 then (if q < 0 then NegZero else Fin 0)
        else Fin (if q < 0 then - (of_int n * u) else of_int n * u))"

definition digitChar :: "nat \<Rightarrow> char" where
  "digitChar d = ''0123456789'' ! d"

function natToDec :: "nat \<Rightarrow> string" where
  "natToDec n = (if n < 10 then [digitChar n] else natToDec (n div 10) @ [digitChar (n mod 10)])"
  by pat_completeness auto
termination
  by (relation "measure id") auto

declare natToDec.simps [simp del]

text \<open>
  Number::toString (radix 10) of ECMA-262: for a finite \<open>x > 0\<close>, integers \<open>n\<close>, \<open>k\<close>,
  \<open>s\<close> with \<open>k \<ge> 1\<close>, \<open>10\<^sup>k\<^sup>-\<^sup>1 \<le> s < 10\<^sup>k\<close>, the Number value for \<open>s \<times> 10\<^sup>n\<^sup>-\<^sup>k\<close> being
  \<open>x\<close>, and \<open>k\<close> as small as possible; among several \<open>s\<close> the one closest to \<open>x\<close>.
  \<open>digitCandidates\<close> lists the \<open>(n, s)\<close> with \<open>k\<close> digits that round to \<open>x\<close> (only the
  two \<open>s\<close> next to \<open>x\<close> can); \<open>shortestDigits\<close> tries \<open>k = 1, 2, \<dots>\<close>; seventeen digits
  always suffice for a binary64 value.
\<close>

definition digitCandidates :: "rat \<Rightarrow> nat \<Rightarrow> int \<Rightarrow> (int \<times> int) list" where
  "digitCandidates q k n =
     (let lo = \<lfloor>q / pow10 (n - int k)\<rfloor> in
      map (Pair n)
        (filter (\<lambda>s. 10 ^ (k - 1) \<le> s \<and> s < 10 ^ k \<and> roundF (of_int s * pow10 (n - int k)) = Fin q)
           [lo, lo + 1]))"

definition closer :: "rat \<Rightarrow> nat \<Rightarrow> int \<times> int \<Rightarrow> int \<times> int \<Rightarrow> int \<times> int" where
  "closer q k c d =
     (let dc = \<bar>of_int (snd c) * pow10 (fst c - int k) - q\<bar>;
          dd = \<bar>of_int (snd d) * pow10 (fst d - int k) - q\<bar>
      in if dd < dc \<or> (dd = dc \<and> even (snd d) \<and> odd (snd c)) then d else c)"

fun shortestDigits :: "rat \<Rightarrow> int \<Rightarrow> nat \<Rightarrow> nat \<Rightarrow> int \<times> nat \<times> int" where
  "shortestDigits q n0 k 0 = (n0, k, \<lfloor>q / pow10 (n0 - int k)\<rfloor>)"
| "shortestDigits q n0 k (Suc fuel) =
     (case digitCandidates q k n0 @ digitCandidates q k (n0 + 1) of
        [] \<Rightarrow> shortestDigits q n0 (Suc k) fuel
      | c # cs \<Rightarrow> (case foldl (closer q k) c cs of (n, s) \<Rightarrow> (n, k, s)))"

definition formatDigits :: "int \<Rightarrow> nat \<Rightarrow> int \<Rightarrow> string" where
  "formatDigits n k s =
     (let ds = natToDec (nat s) in
      if - 5 \<le> n \<and> n \<le> 21 then
        (if int k \<le> n then ds @ replicate (nat (n - int k)) CHR ''0''
         else if 0 < n then take (nat n) ds @ ''.'' @ drop (nat n) ds
         else ''0.'' @ replicate (nat (- n)) CHR ''0'' @ ds)
      else
        (let e = n - 1;
             es = (if e < 0 then ''-'' else ''+'') @ natToDec (nat \<bar>e\<bar>)
         in if k = 1 then ds @ ''e'' @ es
            else take 1 ds @ ''.'' @ drop 1 ds @ ''e'' @ es))"

definition numToString :: "jsnum \<Rightarrow> string" where
  "numToString x =
     (case x of
        NaN \<Rightarrow> ''NaN''
      | PosInf \<Rightarrow> ''Infinity''
      | NegInf \<Rightarrow> ''-Infinity''
      | NegZero \<Rightarrow> ''0''
      | Fin q \<Rightarrow>
          if q = 0 then ''0''
          else (case shortestDigits \<bar>q\<bar> (ilog 10 \<bar>q\<bar> + 1) 1 17 of
                  (n, k, s) \<Rightarrow> (if q < 0 then ''-'' else '''') @ formatDigits n k s))"

text \<open>
  \<^verbatim>\<open>Number.prototype.toFixed(f)\<close> for \<open>0 \<le> f \<le> 100\<close> (the program passes 2 and 4): a
  non-finite value prints as Number::toString does; a magnitude of \<open>10\<^sup>2\<^sup>1\<close> or more too;
  otherwise the integer \<open>n\<close> nearest to \<open>x \<times> 10\<^sup>f\<close> (the larger of two) is printed with
  \<open>f\<close> digits after the point (\<open>fixedDigits\<close>, on the real value, which is \<open>0\<close> for both
  zeros).
\<close>

definition fixedDigits :: "nat \<Rightarrow> rat \<Rightarrow> string" where
  "fixedDigits f q =
     (let sgn = (if q < 0 then ''-'' else []); a = \<bar>q\<bar> in
      if 10 ^ 21 \<le> a then sgn @ numToString (Fin a)
      else
        (let m = natToDec (nat \<lfloor>a * 10 ^ f + 1 / 2\<rfloor>) in
         if f \<noteq> 0 then
           (let m' = (if length m \<le> f then replicate (f + 1 - length m) CHR ''0'' @ m else m);
                k = length m'
            in sgn @ take (k - f) m' @ ''.'' @ drop (k - f) m')
         else sgn @ m))"

definition toFixedNum :: "nat \<Rightarrow> jsnum \<Rightarrow> string" where
  "toFixedNum f x =
     (case x of
        Fin q \<Rightarrow> fixedDigits f q
      | NegZero \<Rightarrow> fixedDigits f 0
      | _ \<Rightarrow> numToString x)"

text \<open>The method call \<^verbatim>\<open>v.toFixed(f)\<close>: only a Number has the method.\<close>

fun toFixed :: "nat \<Rightarrow> jsval \<Rightarrow> exc + string" where
  "toFixed f (JNum x) = Inr (toFixedNum f x)"
| "toFixed f v = Inl TypeError"

text \<open>
  The string argument of \<^verbatim>\<open>parseFloat\<close>: leading white space is dropped, then the longest
  prefix that is a StrDecimalLiteral is read (a sign, then \<^verbatim>\<open>Infinity\<close> or decimal digits
  with an optional fraction and an optional exponent); without such a prefix the result
  is \<open>NaN\<close>. The value of the unsigned literal is rounded, and a minus sign negates the
  result, so that \<^verbatim>\<open>-0\<close> parses to the negative zero.
\<close>

fun negate :: "jsnum \<Rightarrow> jsnum" where
  "negate NaN = NaN"
| "negate PosInf = NegInf"
| "negate NegInf = PosInf"
| "negate NegZero = Fin 0"
| "negate (Fin q) = (if q = 0 then NegZero else Fin (- q))"

definition isDigit :: "char \<Rightarrow> bool" where
  "isDigit c = (c \<in> set ''0123456789'')"

definition isWhiteSpace :: "char \<Rightarrow> bool" where
  "isWhiteSpace c = (c \<in> set [CHR 0x09, CHR 0x0A, CHR 0x0B, CHR 0x0C, CHR 0x0D, CHR 0x20, CHR 0xA0])"

definition decValue :: "string \<Rightarrow> nat" where
  "decValue ds = foldl (\<lambda>a c. 10 * a + (of_char c - 48)) 0 ds"

definition exponentPart :: "string \<Rightarrow> int" where
  "exponentPart r =
     (case r of
        [] \<Rightarrow> 0
      | c # r' \<Rightarrow>
          if c = CHR ''e'' \<or> c = CHR ''E'' then
            (case r' of
               [] \<Rightarrow> 0
             | d # r'' \<Rightarrow>
                 if d = CHR ''-'' then (if takeWhile isDigit r'' = [] then 0 else - int (decValue (takeWhile isDigit r'')))
                 else if d = CHR ''+'' then (if takeWhile isDigit r'' = [] then 0 else int (decValue (takeWhile isDigit r'')))
                 else int (decValue (takeWhile isDigit r')))
          else 0)"

definition unsignedLiteral :: "string \<Rightarrow> rat option" where
  "unsignedLiteral u =
     (let d1 = takeWhile isDigit u; r1 = dropWhile isDigit u;
          d2 = (case r1 of [] \<Rightarrow> [] | c # r \<Rightarrow> if c = CHR ''.'' then takeWhile isDigit r else []);
          r2 = (case r1 of [] \<Rightarrow> [] | c # r \<Rightarrow> if c = CHR ''.'' then dropWhile isDigit r else r1)
      in if d1 = [] \<and> d2 = [] then None
         else Some ((of_nat (decValue d1) + of_nat (decValue d2) / 10 ^ length d2) * pow10 (exponentPart r2)))"

definition parseFloatStr :: "string \<Rightarrow> jsnum" where
  "parseFloatStr str =
     (let t = dropWhile isWhiteSpace str;
          neg = (case t of [] \<Rightarrow> False | c # r \<Rightarrow> c = CHR ''-'');
          u = (case t of [] \<Rightarrow> [] | c # r \<Rightarrow> if c = CHR ''-'' \<or> c = CHR ''+'' then r else t)
      in if take 8 u = ''Infinity'' then (if neg then NegInf else PosInf)
         else (case unsignedLiteral u of
                 None \<Rightarrow> NaN
               | Some mv \<Rightarrow> (if neg then negate (roundF mv) else roundF mv)))"

section \<open>String conversion\<close>

text \<open>
  ToString, as a template literal \<^verbatim>\<open>${v}\<close> and \<^verbatim>\<open>parseFloat(v)\<close> apply it. An object
  goes through \<^verbatim>\<open>toString\<close> and \<^verbatim>\<open>valueOf\<close>: a parsed JSON object inherits
  \<^verbatim>\<open>Object.prototype.toString\<close> (which gives \<^verbatim>\<open>[object Object]\<close>) unless it has an own
  property \<^verbatim>\<open>toString\<close>, which is never callable, and then no method yields a primitive
  and a TypeError is thrown. An array is joined with commas, \<^verbatim>\<open>null\<close> and
  \<^verbatim>\<open>undefined\<close> elements giving the empty string.
\<close>

fun ToString :: "jsval \<Rightarrow> exc + string"
  and joinElems :: "jsval list \<Rightarrow> exc + string" where
  "ToString JUndefined = Inr ''undefined''"
| "ToString JNull = Inr ''null''"
| "ToString (JBool b) = Inr (if b then ''true'' else ''false'')"
| "ToString (JNum x) = Inr (numToString x)"
| "ToString (JStr s) = Inr s"
| "ToString (JArr xs) = joinElems xs"
| "ToString (JObj props) =
     (if map_of props ''toString'' = None then Inr ''[object Object]'' else Inl TypeError)"
| "joinElems [] = Inr ''''"
| "joinElems [x] = (if nullish x then Inr '''' else ToString x)"
| "joinElems (x # y # ys) =
     (case (if nullish x then Inr '''' else ToString x) of
        Inl e \<Rightarrow> Inl e
      | Inr s \<Rightarrow> (case joinElems (y # ys) of Inl e \<Rightarrow> Inl e | Inr t \<Rightarrow> Inr (s @ '','' @ t)))"

text \<open>\<^verbatim>\<open>parseFloat(v)\<close>: the argument is converted to a string first.\<close>

definition parseFloat :: "jsval \<Rightarrow> exc + jsval" where
  "parseFloat v = bindE (ToString v) (\<lambda>s. Inr (JNum (parseFloatStr s)))"

text \<open>
  The method call \<^verbatim>\<open>v.toLocaleString()\<close> on a value that is neither \<^verbatim>\<open>null\<close> nor
  \<^verbatim>\<open>undefined\<close>. What a Number prints as, and the separator of an array's elements,
  depend on the engine and the user's locale: they are parameters. So is the wording of
  the exceptions: \<open>errorMessage L data\<close> is the \<^verbatim>\<open>message\<close> of the exception that
  \<^verbatim>\<open>displayResults(data)\<close> throws, for a payload on which it throws. A string gives itself;
  a boolean and an object use \<^verbatim>\<open>Object.prototype.toLocaleString\<close>, which calls
  \<^verbatim>\<open>toString\<close>; an own property \<^verbatim>\<open>toLocaleString\<close> or \<^verbatim>\<open>toString\<close> of a parsed
  object is not callable, and calling it throws.
\<close>

record hostLocale =
  numberFormat :: "jsnum \<Rightarrow> string"
  listSeparator :: string
  errorMessage :: "jsval \<Rightarrow> string"

fun toLocaleString :: "hostLocale \<Rightarrow> jsval \<Rightarrow> exc + string"
  and joinLocale :: "hostLocale \<Rightarrow> jsval list \<Rightarrow> exc + string" where
  "toLocaleString L JUndefined = Inl TypeError"
| "toLocaleString L JNull = Inl TypeError"
| "toLocaleString L (JBool b) = Inr (if b then ''true'' else ''false'')"
| "toLocaleString L (JNum x) = Inr (numberFormat L x)"
| "toLocaleString L (JStr s) = Inr s"
| "toLocaleString L (JArr xs) = joinLocale L xs"
| "toLocaleString L (JObj props) =
     (if map_of props ''toLocaleString'' = None \<and> map_of props ''toString'' = None
      then Inr ''[object Object]'' else Inl TypeError)"
| "joinLocale L [] = Inr ''''"
| "joinLocale L [x] = (if nullish x then Inr '''' else toLocaleString L x)"
| "joinLocale L (x # y # ys) =
     (case (if nullish x then Inr '''' else toLocaleString L x) of
        Inl e \<Rightarrow> Inl e
      | Inr s \<Rightarrow> (case joinLocale L (y # ys) of Inl e \<Rightarrow> Inl e | Inr t \<Rightarrow> Inr (s @ listSeparator L @ t)))"

section \<open>The page\<close>

text \<open>
  What the renderer reads and writes (lines 7 to 10 of \<^verbatim>\<open>app.js\<close>): the content of
  \<^verbatim>\<open>resultsContainer\<close>, \<^verbatim>\<open>chartContainer.style.display\<close>, and the variable
  \<^verbatim>\<open>resultsChart\<close> (\<open>None\<close> is \<^verbatim>\<open>null\<close>). \<open>liveCharts\<close> is the state of the chart
  library: the instances that were constructed and not destroyed since.

  The content of the results container is kept as the script wrote it, one item for each
  write: the markup of an assignment to \<^verbatim>\<open>innerHTML\<close> (\<open>Html\<close>, the string as it was
  assigned and not parsed; the empty string leaves nothing), and the element added by
  \<^verbatim>\<open>appendChild(card)\<close> (\<open>ResultCard\<close>, the record of the strings its template holds).
  The script splices its texts into markup without escaping them (lines 81 and 116 to
  131), so which elements the browser makes of an \<open>Html\<close> item, or of the content of a
  card, depends on those texts and is not part of this development: the list tells what was
  written and in which order, and the number of \<open>Html\<close> items is a number of
  assignments, not of elements.
\<close>

record card =
  date_text :: string
  rank_text :: string
  open_text :: string
  high_text :: string
  low_text :: string
  close_text :: string
  volume_text :: string
  scoreType_text :: string
  score_text :: string

datatype node = Html string | ResultCard card

text \<open>
  The configuration given to \<^verbatim>\<open>new Chart(ctx, {type: 'bar', data: {labels, datasets}, options})\<close>:
  the labels and the four datasets with their names; colours and options are constants
  of the source and are left out.
\<close>

record chart =
  labels :: "string list"
  datasets :: "(string \<times> jsval list) list"

record page =
  resultsContainer :: "node list"
  chartContainer_display :: string
  resultsChart :: "chart option"
  liveCharts :: "chart multiset"

datatype outcome = Returned | Threw exc

text \<open>\<^verbatim>\<open>clearResults()\<close>, lines 41 to 48.\<close>

definition clearResults :: "page \<Rightarrow> page" where
  "clearResults s =
     (let s1 = s\<lparr>resultsContainer := []\<rparr>;
          s2 = s1\<lparr>chartContainer_display := ''none''\<rparr>
      in case resultsChart s2 of
           Some c \<Rightarrow> s2\<lparr>liveCharts := liveCharts s2 - {#c#}, resultsChart := None\<rparr>
         | None \<Rightarrow> s2)"

section \<open>One result card\<close>

text \<open>The constants of the callback, lines 104 to 114.\<close>

record itemValues =
  rank :: jsval
  date :: jsval
  open_price :: jsval
  high_price :: jsval
  low_price :: jsval
  close_price :: jsval
  volume :: jsval
  scoreType :: string
  score :: string

text \<open>
  Lines 112 to 114:
  \<^verbatim>\<open>scoreType = item.Similarity !== undefined ? 'Similarity' : 'Variance'\<close>,
  \<^verbatim>\<open>scoreValue = item.Similarity ?? item.Variance\<close>,
  \<^verbatim>\<open>score = scoreValue !== undefined ? parseFloat(scoreValue).toFixed(4) : 'N/A'\<close>.
\<close>

definition scoreOf :: "jsval \<Rightarrow> exc + string \<times> string" where
  "scoreOf item =
     bindE (getProp item ''Similarity'') (\<lambda>similarity.
     bindE (getProp item ''Variance'') (\<lambda>variance.
       let scoreType = (if similarity \<noteq> JUndefined then ''Similarity'' else ''Variance'');
           scoreValue = coalesce similarity variance
       in if scoreValue \<noteq> JUndefined
          then bindE (parseFloat scoreValue) (\<lambda>n. bindE (toFixed 4 n) (\<lambda>score. Inr (scoreType, score)))
          else Inr (scoreType, ''N/A'')))"

text \<open>Lines 106 to 109: \<^verbatim>\<open>parseFloat(item.Open) ?? 0\<close>.\<close>

definition priceOf :: "jsval \<Rightarrow> string \<Rightarrow> exc + jsval" where
  "priceOf item name =
     bindE (getProp item name) (\<lambda>v.
     bindE (parseFloat v) (\<lambda>n. Inr (coalesce n (JNum (Fin 0)))))"

text \<open>Line 110: \<^verbatim>\<open>item.Volume?.toLocaleString() ?? 'N/A'\<close>.\<close>

definition volumeOf :: "hostLocale \<Rightarrow> jsval \<Rightarrow> exc + jsval" where
  "volumeOf L item =
     bindE (getProp item ''Volume'') (\<lambda>v.
     bindE (if nullish v then Inr JUndefined else bindE (toLocaleString L v) (\<lambda>s. Inr (JStr s))) (\<lambda>r.
       Inr (coalesce r (JStr ''N/A''))))"

definition deriveValues :: "hostLocale \<Rightarrow> jsval \<Rightarrow> exc + itemValues" where
  "deriveValues L item =
     bindE (getProp item ''Rank'') (\<lambda>r.
     bindE (getProp item ''Date'') (\<lambda>d.
     bindE (priceOf item ''Open'') (\<lambda>open.
     bindE (priceOf item ''High'') (\<lambda>high.
     bindE (priceOf item ''Low'') (\<lambda>low.
     bindE (priceOf item ''Close'') (\<lambda>close.
     bindE (volumeOf L item) (\<lambda>vol.
     bindE (scoreOf item) (\<lambda>(ty, sc).
       Inr \<lparr>rank = coalesce r (JStr ''N/A''), date = coalesce d (JStr ''N/A''),
            open_price = open, high_price = high, low_price = low, close_price = close,
            volume = vol, scoreType = ty, score = sc\<rparr>))))))))"

text \<open>
  The template literal of lines 116 to 131, in the order its substitutions are evaluated;
  \<open>card_innerHTML\<close> is the markup it produces.
\<close>

definition cardOf :: "itemValues \<Rightarrow> exc + card" where
  "cardOf v =
     bindE (ToString (date v)) (\<lambda>d.
     bindE (ToString (rank v)) (\<lambda>r.
     bindE (toFixed 2 (open_price v)) (\<lambda>open.
     bindE (toFixed 2 (high_price v)) (\<lambda>high.
     bindE (toFixed 2 (low_price v)) (\<lambda>low.
     bindE (toFixed 2 (close_price v)) (\<lambda>close.
     bindE (ToString (volume v)) (\<lambda>vol.
       Inr \<lparr>date_text = d, rank_text = r, open_text = open, high_text = high,
            low_text = low, close_text = close, volume_text = vol,
            scoreType_text = scoreType v, score_text = score v\<rparr>)))))))"

definition card_innerHTML :: "card \<Rightarrow> string" where
  "card_innerHTML c =
     [CHR 0x0A] @
     ''                <div class=\"result-card-header\">'' @ [CHR 0x0A] @
     ''                    <h3>'' @ date_text c @ ''</h3>'' @ [CHR 0x0A] @
     ''                    <span class=\"rank-badge\">Rank '' @ rank_text c @ ''</span>'' @ [CHR 0x0A] @
     ''                </div>'' @ [CHR 0x0A] @
     ''                <div class=\"result-card-body\">'' @ [CHR 0x0A] @
     ''                    <div class=\"metric\">Open<strong>'' @ open_text c @ ''</strong></div>'' @ [CHR 0x0A] @
     ''                    <div class=\"metric high\">High<strong class=\"high\">'' @ high_text c @ ''</strong></div>'' @ [CHR 0x0A] @
     ''                    <div class=\"metric low\">Low<strong class=\"low\">'' @ low_text c @ ''</strong></div>'' @ [CHR 0x0A] @
     ''                    <div class=\"metric\">Close<strong>'' @ close_text c @ ''</strong></div>'' @ [CHR 0x0A] @
     ''                    <div class=\"metric\">Volume<strong>'' @ volume_text c @ ''</strong></div>'' @ [CHR 0x0A] @
     ''                </div>'' @ [CHR 0x0A] @
     ''                <div class=\"result-card-footer\">'' @ [CHR 0x0A] @
     ''                    <div class=\"score\"><span>'' @ scoreType_text c @ '':</span> '' @ score_text c @ ''</div>'' @ [CHR 0x0A] @
     ''                </div>'' @ [CHR 0x0A] @
     ''            ''"

text \<open>Line 136: the chart label \<^verbatim>\<open>`Rank ${rank} (${date})`\<close>.\<close>

definition chartLabel :: "itemValues \<Rightarrow> exc + string" where
  "chartLabel v =
     bindE (ToString (rank v)) (\<lambda>r.
     bindE (ToString (date v)) (\<lambda>d.
       Inr (''Rank '' @ r @ '' ('' @ d @ '')'')))"

section \<open>displayResults\<close>

record chartData =
  data_open :: "jsval list"
  data_high :: "jsval list"
  data_low :: "jsval list"
  data_close :: "jsval list"

text \<open>
  The state the loop of lines 100 to 142 works on: the page, \<^verbatim>\<open>chartLabels\<close> and
  \<^verbatim>\<open>chartData\<close>. The callback builds the card, appends it, and, when \<^verbatim>\<open>item.Open\<close> is
  not \<^verbatim>\<open>undefined\<close>, pushes the label and the four prices. An exception leaves the
  state as it is at that point.
\<close>

type_synonym loopState = "page \<times> string list \<times> chartData"

definition callback :: "hostLocale \<Rightarrow> jsval \<Rightarrow> loopState \<Rightarrow> outcome \<times> loopState" where
  "callback L item st =
     (case st of (s, chartLabels, cd) \<Rightarrow>
        (case bindE (deriveValues L item) (\<lambda>v. bindE (cardOf v) (\<lambda>c. Inr (v, c))) of
           Inl e \<Rightarrow> (Threw e, st)
         | Inr (v, c) \<Rightarrow>
             (let s' = s\<lparr>resultsContainer := resultsContainer s @ [ResultCard c]\<rparr> in
              case getProp item ''Open'' of
                Inl e \<Rightarrow> (Threw e, (s', chartLabels, cd))
              | Inr raw \<Rightarrow>
                  if raw \<noteq> JUndefined then
                    (case chartLabel v of
                       Inl e \<Rightarrow> (Threw e, (s', chartLabels, cd))
                     | Inr l \<Rightarrow>
                         (Returned,
                          (s', chartLabels @ [l],
                           \<lparr>data_open = data_open cd @ [open_price v],
                            data_high = data_high cd @ [high_price v],
                            data_low = data_low cd @ [low_price v],
                            data_close = data_close cd @ [close_price v]\<rparr>)))
                  else (Returned, (s', chartLabels, cd)))))"

text \<open>\<^verbatim>\<open>Array.prototype.forEach\<close>: the callback on each element in order, until one throws.\<close>

fun forEach :: "('a \<Rightarrow> 's \<Rightarrow> outcome \<times> 's) \<Rightarrow> 'a list \<Rightarrow> 's \<Rightarrow> outcome \<times> 's" where
  "forEach f [] st = (Returned, st)"
| "forEach f (x # xs) st =
     (case f x st of
        (Threw e, st') \<Rightarrow> (Threw e, st')
      | (Returned, st') \<Rightarrow> forEach f xs st')"

definition newChart :: "string list \<Rightarrow> chartData \<Rightarrow> chart" where
  "newChart chartLabels cd =
     \<lparr>labels = chartLabels,
      datasets = [(''Open'', data_open cd), (''High'', data_high cd),
                  (''Low'', data_low cd), (''Close'', data_close cd)]\<rparr>"

text \<open>
  \<^verbatim>\<open>displayResults(data)\<close>, lines 77 to 208. The calls into the document and the chart
  library (\<^verbatim>\<open>createElement\<close>, \<^verbatim>\<open>appendChild\<close>, \<^verbatim>\<open>getContext\<close>, the \<^verbatim>\<open>Chart\<close>
  constructor, \<^verbatim>\<open>destroy\<close>) are taken to succeed; the exceptions modelled are those of
  the language itself.
\<close>

definition displayResults :: "hostLocale \<Rightarrow> jsval \<Rightarrow> page \<Rightarrow> outcome \<times> page" where
  "displayResults L data s0 =
     (let s = clearResults s0 in
      case getProp data ''detail'' of
        Inl e \<Rightarrow> (Threw e, s)
      | Inr detail \<Rightarrow>
          if truthy detail then
            (case ToString detail of
               Inl e \<Rightarrow> (Threw e, s)
             | Inr t \<Rightarrow>
                 (Returned, s\<lparr>resultsContainer := [Html (''<div class=\"error-message\">'' @ t @ ''</div>'')]\<rparr>))
          else if \<not> isArray data \<or> length (elements data) = 0 then
            (Returned, s\<lparr>resultsContainer := [Html ''<p>No results found.</p>'']\<rparr>)
          else
            (case forEach (callback L) (elements data)
                    (s, [], \<lparr>data_open = [], data_high = [], data_low = [], data_close = []\<rparr>) of
               (Threw e, (s', chartLabels, cd)) \<Rightarrow> (Threw e, s')
             | (Returned, (s', chartLabels, cd)) \<Rightarrow>
                 if 0 < length chartLabels then
                   (let s1 = s'\<lparr>chartContainer_display := ''block''\<rparr>;
                        c = newChart chartLabels cd
                    in (Returned, s1\<lparr>liveCharts := liveCharts s1 + {#c#}, resultsChart := Some c\<rparr>))
                 else (Returned, s')))"

text \<open>
  The markup the script wrote into the results container: assigned markup as it was given,
  and a card as its \<^verbatim>\<open>div\<close> around the template string. This is the text handed to the
  browser, not what reading \<^verbatim>\<open>resultsContainer.innerHTML\<close> back would give (the browser
  parses the markup and serialises its tree again, escaping the text).
\<close>

fun itemMarkup :: "node \<Rightarrow> string" where
  "itemMarkup (Html m) = m"
| "itemMarkup (ResultCard c) = ''<div class=\"result-card\">'' @ card_innerHTML c @ ''</div>''"

definition markupWritten :: "page \<Rightarrow> string" where
  "markupWritten s = concat (map itemMarkup (resultsContainer s))"

text \<open>
  A page as the script finds it (line 10: \<^verbatim>\<open>let resultsChart = null\<close>), and a host
  whose numbers print without grouping and whose exceptions all carry the message
  \<^verbatim>\<open>TypeError\<close>, for the concrete runs below.
\<close>

definition pageLoad :: page where
  "pageLoad = \<lparr>resultsContainer = [], chartContainer_display = [], resultsChart = None, liveCharts = {#}\<rparr>"

definition plainLocale :: hostLocale where
  "plainLocale = \<lparr>numberFormat = numToString, listSeparator = '','',
                   errorMessage = (\<lambda>data. ''TypeError'')\<rparr>"

section \<open>Which values convert without an exception\<close>

text \<open>
  \<open>stringable v\<close>: ToString of \<open>v\<close> does not throw (no object with an own \<^verbatim>\<open>toString\<close>
  property is reached). \<open>localizable v\<close>: the call \<^verbatim>\<open>v.toLocaleString()\<close> does not
  throw. Every primitive value is both, apart from the call on \<^verbatim>\<open>null\<close> and
  \<^verbatim>\<open>undefined\<close>.
\<close>

fun stringable :: "jsval \<Rightarrow> bool"
  and stringableAll :: "jsval list \<Rightarrow> bool" where
  "stringable (JArr xs) = stringableAll xs"
| "stringable (JObj props) = (map_of props ''toString'' = None)"
| "stringable JUndefined = True"
| "stringable JNull = True"
| "stringable (JBool b) = True"
| "stringable (JNum x) = True"
| "stringable (JStr s) = True"
| "stringableAll [] = True"
| "stringableAll (x # xs) = (stringable x \<and> stringableAll xs)"

fun localizable :: "jsval \<Rightarrow> bool"
  and localizableAll :: "jsval list \<Rightarrow> bool" where
  "localizable (JArr xs) = localizableAll xs"
| "localizable (JObj props) =
     (map_of props ''toLocaleString'' = None \<and> map_of props ''toString'' = None)"
| "localizable JUndefined = False"
| "localizable JNull = False"
| "localizable (JBool b) = True"
| "localizable (JNum x) = True"
| "localizable (JStr s) = True"
| "localizableAll [] = True"
| "localizableAll (x # xs) = ((nullish x \<or> localizable x) \<and> localizableAll xs)"

text \<open>The value of \<^verbatim>\<open>item.name\<close> for an item that is not \<^verbatim>\<open>null\<close> or \<^verbatim>\<open>undefined\<close>.\<close>

definition field :: "jsval \<Rightarrow> string \<Rightarrow> jsval" where
  "field item name = (case getProp item name of Inl e \<Rightarrow> JUndefined | Inr v \<Rightarrow> v)"

text \<open>
  \<open>entryOK item\<close>: the callback of the loop runs on \<open>item\<close> without an exception. The
  item is not \<^verbatim>\<open>null\<close> or \<^verbatim>\<open>undefined\<close>, the four prices, the date, the rank and
  the score value convert to strings, and the volume is absent or has a working
  \<^verbatim>\<open>toLocaleString\<close>. An object whose fields are numbers, strings, booleans or
  \<^verbatim>\<open>null\<close> always qualifies.
\<close>

definition entryOK :: "jsval \<Rightarrow> bool" where
  "entryOK item =
     (\<not> nullish item
      \<and> stringable (field item ''Open'') \<and> stringable (field item ''High'')
      \<and> stringable (field item ''Low'') \<and> stringable (field item ''Close'')
      \<and> (nullish (field item ''Volume'') \<or> localizable (field item ''Volume''))
      \<and> stringable (coalesce (field item ''Similarity'') (field item ''Variance''))
      \<and> stringable (field item ''Date'') \<and> stringable (field item ''Rank''))"

text \<open>\<^verbatim>\<open>item.Open !== undefined\<close>, the test of line 135.\<close>

definition hasOpen :: "jsval \<Rightarrow> bool" where
  "hasOpen item = (field item ''Open'' \<noteq> JUndefined)"

text \<open>
  The card, the chart label and a price of one item, as the callback computes them
  (\<open>Inl\<close> when it throws); \<open>theCard\<close>, \<open>theLabel\<close> and \<open>thePrice\<close> name the results for
  an item on which it does not.
\<close>

definition cardFor :: "hostLocale \<Rightarrow> jsval \<Rightarrow> exc + card" where
  "cardFor L item = bindE (deriveValues L item) cardOf"

definition labelFor :: "hostLocale \<Rightarrow> jsval \<Rightarrow> exc + string" where
  "labelFor L item = bindE (deriveValues L item) chartLabel"

definition theCard :: "hostLocale \<Rightarrow> jsval \<Rightarrow> card" where
  "theCard L item = projr (cardFor L item)"

definition theLabel :: "hostLocale \<Rightarrow> jsval \<Rightarrow> string" where
  "theLabel L item = projr (labelFor L item)"

definition thePrice :: "jsval \<Rightarrow> string \<Rightarrow> jsval" where
  "thePrice item name = projr (priceOf item name)"

definition theValues :: "hostLocale \<Rightarrow> jsval \<Rightarrow> itemValues" where
  "theValues L item = projr (deriveValues L item)"

text \<open>
  The chart the loop accumulates over a list of items: one label and one value per dataset
  for each item whose \<^verbatim>\<open>Open\<close> is not \<^verbatim>\<open>undefined\<close>, in the order of the items.
\<close>

definition chartOf :: "hostLocale \<Rightarrow> jsval list \<Rightarrow> chart" where
  "chartOf L items =
     newChart (map (theLabel L) (filter hasOpen items))
       \<lparr>data_open = map (\<lambda>i. thePrice i ''Open'') (filter hasOpen items),
        data_high = map (\<lambda>i. thePrice i ''High'') (filter hasOpen items),
        data_low = map (\<lambda>i. thePrice i ''Low'') (filter hasOpen items),
        data_close = map (\<lambda>i. thePrice i ''Close'') (filter hasOpen items)\<rparr>"

section \<open>Notions used in the statements\<close>


text \<open>A primitive value: not an array and not an object.\<close>

fun primitive :: "jsval \<Rightarrow> bool" where
  "primitive (JArr xs) = False"
| "primitive (JObj props) = False"
| "primitive v = True"

text \<open>
  \<open>payloadOK data\<close>: the payloads on which \<^verbatim>\<open>displayResults\<close> returns. The payload is
  not \<^verbatim>\<open>null\<close> or \<^verbatim>\<open>undefined\<close>; a truthy \<^verbatim>\<open>detail\<close> converts to a string;
  with a falsy \<^verbatim>\<open>detail\<close>, every element of an array passes \<open>entryOK\<close>.
\<close>

definition payloadOK :: "jsval \<Rightarrow> bool" where
  "payloadOK data =
     (\<not> nullish data \<and>
      (if truthy (field data ''detail'') then stringable (field data ''detail'')
       else list_all entryOK (elements data)))"

text \<open>
  The chart library holds exactly the chart the variable \<^verbatim>\<open>resultsChart\<close> refers to,
  and nothing when the variable is \<^verbatim>\<open>null\<close>.
\<close>

definition chartInv :: "page \<Rightarrow> bool" where
  "chartInv s = (liveCharts s = (case resultsChart s of None \<Rightarrow> {#} | Some c \<Rightarrow> {#c#}))"

text \<open>
  What the event handlers do to the page. \<open>Clear\<close> is \<^verbatim>\<open>clearResults()\<close>: a tab switch
  (line 27) or the start of a form submission (lines 216, 242 and 265). \<open>Render data\<close> is
  the call \<^verbatim>\<open>displayResults(data)\<close> inside the \<^verbatim>\<open>try\<close> of a submit handler (lines 228,
  251 and 273): when it throws, the \<^verbatim>\<open>catch\<close> (lines 230, 253 and 275) assigns an error
  message with the exception's text to \<^verbatim>\<open>resultsContainer.innerHTML\<close>, which replaces
  whatever the interrupted call had written. \<open>Failed msg\<close> is a submission whose
  \<^verbatim>\<open>fetch\<close> or \<^verbatim>\<open>response.json()\<close> throws with the message \<open>msg\<close>: the same
  \<^verbatim>\<open>catch\<close> runs and \<^verbatim>\<open>displayResults\<close> is not called.
\<close>

datatype action = Clear | Render jsval | Failed string

definition caught :: "string \<Rightarrow> page \<Rightarrow> page" where
  "caught msg s =
     s\<lparr>resultsContainer := [Html (''<div class=\"error-message\">An error occurred: '' @ msg @ ''</div>'')]\<rparr>"

fun perform :: "hostLocale \<Rightarrow> page \<Rightarrow> action \<Rightarrow> page" where
  "perform L s Clear = clearResults s"
| "perform L s (Render data) =
     (case displayResults L data s of
        (Returned, s') \<Rightarrow> s'
      | (Threw e, s') \<Rightarrow> caught (errorMessage L data) s')"
| "perform L s (Failed msg) = caught msg s"

definition run :: "hostLocale \<Rightarrow> action list \<Rightarrow> page \<Rightarrow> page" where
  "run L acts s = foldl (perform L) s acts"

text \<open>Sample payloads for the concrete runs: a pattern match with prices, and a volatility result.\<close>

definition patternEntry :: jsval where
  "patternEntry =
     JObj [(''Rank'', JNum (Fin 1)), (''Date'', JStr ''2021-03-04''),
           (''Open'', JStr ''100.5''), (''High'', JStr ''101''), (''Low'', JStr ''99.25''),
           (''Close'', JStr ''100''), (''Volume'', JNum (Fin 12000)),
           (''Similarity'', JNum (Fin 0))]"

definition volatilityEntry :: jsval where
  "volatilityEntry =
     JObj [(''Rank'', JNum (Fin 2)), (''Date'', JStr ''2020-01-02''),
           (''Variance'', JNum (Fin (1 / 2)))]"

definition patternCard :: card where
  "patternCard =
     \<lparr>date_text = ''2021-03-04'', rank_text = ''1'', open_text = ''100.50'', high_text = ''101.00'',
      low_text = ''99.25'', close_text = ''100.00'', volume_text = ''12000'',
      scoreType_text = ''Similarity'', score_text = ''0.0000''\<rparr>"

definition volatilityCard :: card where
  "volatilityCard =
     \<lparr>date_text = ''2020-01-02'', rank_text = ''2'', open_text = ''NaN'', high_text = ''NaN'',
      low_text = ''NaN'', close_text = ''NaN'', volume_text = ''N/A'',
      scoreType_text = ''Variance'', score_text = ''0.5000''\<rparr>"

definition patternChart :: chart where
  "patternChart =
     \<lparr>labels = [''Rank 1 (2021-03-04)''],
      datasets = [(''Open'', [JNum (Fin (201 / 2))]), (''High'', [JNum (Fin 101)]),
                  (''Low'', [JNum (Fin (397 / 4))]), (''Close'', [JNum (Fin 100)])]\<rparr>"

text \<open>An object all of whose fields are primitive values, as a JSON record of scalars is.\<close>

fun scalarRecord :: "jsval \<Rightarrow> bool" where
  "scalarRecord (JObj props) = list_all (\<lambda>p. primitive (snd p)) props"
| "scalarRecord v = False"

text \<open>Further sample entries: only a score, a score of \<open>10\<^sup>2\<^sup>1\<close>, and a \<^verbatim>\<open>null\<close> Similarity.\<close>

definition scoreOnlyCard :: "string \<Rightarrow> string \<Rightarrow> card" where
  "scoreOnlyCard ty sc =
     \<lparr>date_text = ''N/A'', rank_text = ''N/A'', open_text = ''NaN'', high_text = ''NaN'',
      low_text = ''NaN'', close_text = ''NaN'', volume_text = ''N/A'',
      scoreType_text = ty, score_text = sc\<rparr>"

definition hugeScoreEntry :: jsval where
  "hugeScoreEntry = JObj [(''Similarity'', JNum (Fin 1000000000000000000000))]"

definition nullSimilarityEntry :: "rat \<Rightarrow> jsval" where
  "nullSimilarityEntry v = JObj [(''Similarity'', JNull), (''Variance'', JNum (Fin v))]"

section \<open>Basic facts\<close>

lemma bindE_Inl [simp]: "bindE (Inl e) f = Inl e"
  by (simp add: bindE_def)

lemma bindE_Inr [simp]: "bindE (Inr x) f = f x"
  by (simp add: bindE_def)

lemma exc_is_TypeError: "(e :: exc) = TypeError"
  by (cases e) simp

lemma clearResults_resultsContainer [simp]: "resultsContainer (clearResults s) = []"
  by (simp add: clearResults_def Let_def split: option.split)

lemma clearResults_display [simp]: "chartContainer_display (clearResults s) = ''none''"
  by (simp add: clearResults_def Let_def split: option.split)

lemma clearResults_resultsChart [simp]: "resultsChart (clearResults s) = None"
  by (simp add: clearResults_def Let_def split: option.split)

lemma clearResults_liveCharts:
  "liveCharts (clearResults s) =
     (case resultsChart s of None \<Rightarrow> liveCharts s | Some c \<Rightarrow> liveCharts s - {#c#})"
  by (simp add: clearResults_def Let_def split: option.split)

lemma getProp_nullish: "getProp v name = Inl TypeError \<longleftrightarrow> nullish v"
  by (cases v) simp_all

lemma getProp_cases: "getProp v name = Inl TypeError \<or> (\<exists>w. getProp v name = Inr w)"
  by (cases v) simp_all

section \<open>The error branch and the empty branch\<close>

lemma displayResults_error:
  assumes "getProp data ''detail'' = Inr detail" and "truthy detail" and "ToString detail = Inr t"
  shows "displayResults L data s =
           (Returned, (clearResults s)\<lparr>resultsContainer := [Html (''<div class=\"error-message\">'' @ t @ ''</div>'')]\<rparr>)"
  using assms by (simp add: displayResults_def Let_def)

lemma displayResults_empty:
  assumes "getProp data ''detail'' = Inr detail" and "\<not> truthy detail"
    and "\<not> isArray data \<or> elements data = []"
  shows "displayResults L data s =
           (Returned, (clearResults s)\<lparr>resultsContainer := [Html ''<p>No results found.</p>'']\<rparr>)"
  using assms by (auto simp add: displayResults_def Let_def)

lemma displayResults_nullish:
  assumes "nullish data"
  shows "displayResults L data s = (Threw TypeError, clearResults s)"
proof -
  from assms have "getProp data ''detail'' = Inl TypeError"
    by (simp add: getProp_nullish)
  then show ?thesis
    by (simp add: displayResults_def Let_def)
qed

text \<open>
  C9 (amended). For every payload other than \<^verbatim>\<open>null\<close> and \<^verbatim>\<open>undefined\<close> whose
  \<^verbatim>\<open>detail\<close> is falsy, and which is not an array or is an empty array,
  \<^verbatim>\<open>displayResults\<close> returns having written into the results container the no-results
  placeholder (the markup of one paragraph) and nothing else; no result card is present,
  the chart container is hidden and no chart is held.
\<close>

theorem C9_no_results_placeholder:
  assumes "\<not> nullish data" and "getProp data ''detail'' = Inr detail" and "\<not> truthy detail"
    and "\<not> isArray data \<or> elements data = []"
  shows "displayResults L data s =
           (Returned, (clearResults s)\<lparr>resultsContainer := [Html ''<p>No results found.</p>'']\<rparr>)
         \<and> resultsContainer (snd (displayResults L data s)) = [Html ''<p>No results found.</p>'']
         \<and> markupWritten (snd (displayResults L data s)) = ''<p>No results found.</p>''
         \<and> chartContainer_display (snd (displayResults L data s)) = ''none''
         \<and> resultsChart (snd (displayResults L data s)) = None"
  using displayResults_empty [OF assms(2-4)] by (simp add: markupWritten_def)

theorem C9_no_results_placeholder_witness:
  "displayResults plainLocale (JArr []) pageLoad =
     (Returned, \<lparr>resultsContainer = [Html ''<p>No results found.</p>''],
                 chartContainer_display = ''none'', resultsChart = None, liveCharts = {#}\<rparr>)
   \<and> displayResults plainLocale (JObj [(''message'', JStr ''ok'')]) pageLoad =
     (Returned, \<lparr>resultsContainer = [Html ''<p>No results found.</p>''],
                 chartContainer_display = ''none'', resultsChart = None, liveCharts = {#}\<rparr>)"
proof -
  have a: "displayResults plainLocale (JArr []) pageLoad =
      (Returned, (clearResults pageLoad)\<lparr>resultsContainer := [Html ''<p>No results found.</p>'']\<rparr>)"
    using C9_no_results_placeholder [of "JArr []" JUndefined plainLocale pageLoad] by simp
  have b: "displayResults plainLocale (JObj [(''message'', JStr ''ok'')]) pageLoad =
      (Returned, (clearResults pageLoad)\<lparr>resultsContainer := [Html ''<p>No results found.</p>'']\<rparr>)"
    using C9_no_results_placeholder [of "JObj [(''message'', JStr ''ok'')]" JUndefined plainLocale pageLoad] by simp
  show ?thesis unfolding a b by (simp add: clearResults_def pageLoad_def)
qed

text \<open>
  C9 as stated fails: \<^verbatim>\<open>null\<close> carries no error indicator and is not a sequence, yet
  reading \<^verbatim>\<open>data.detail\<close> throws before any placeholder is written.
\<close>

theorem C9_null_payload_counterexample:
  "displayResults plainLocale JNull pageLoad =
     (Threw TypeError, \<lparr>resultsContainer = [], chartContainer_display = ''none'',
                        resultsChart = None, liveCharts = {#}\<rparr>)"
  by (simp add: displayResults_def Let_def clearResults_def pageLoad_def)

section \<open>Conversions that cannot throw\<close>

lemma nullish_stringable: "nullish x \<Longrightarrow> stringable x"
  by (cases x) simp_all

lemma ToString_total:
  "(stringable v \<longrightarrow> (\<exists>s. ToString v = Inr s)) \<and> (\<not> stringable v \<longrightarrow> ToString v = Inl TypeError)"
  "(stringableAll xs \<longrightarrow> (\<exists>s. joinElems xs = Inr s)) \<and> (\<not> stringableAll xs \<longrightarrow> joinElems xs = Inl TypeError)"
proof (induction v and xs rule: ToString_joinElems.induct)
  case (10 x y ys)
  then show ?case
    by (cases "nullish x"; cases "stringable x"; cases "stringableAll (y # ys)")
       (auto simp: exc_is_TypeError nullish_stringable split: sum.splits)
next
  case (9 x)
  then show ?case by (cases x) auto
qed auto

lemma ToString_stringable: "stringable v \<Longrightarrow> ToString v = Inr (projr (ToString v))"
  using ToString_total(1) [of v] by auto

lemma ToString_not_stringable: "\<not> stringable v \<Longrightarrow> ToString v = Inl TypeError"
  using ToString_total(1) [of v] by auto

lemma toLocaleString_total:
  "(localizable v \<longrightarrow> (\<exists>s. toLocaleString L v = Inr s)) \<and> (\<not> localizable v \<longrightarrow> toLocaleString L v = Inl TypeError)"
  "(localizableAll xs \<longrightarrow> (\<exists>s. joinLocale L xs = Inr s)) \<and> (\<not> localizableAll xs \<longrightarrow> joinLocale L xs = Inl TypeError)"
proof (induction L v and L xs rule: toLocaleString_joinLocale.induct)
  case (10 L x y ys)
  then show ?case
    by (cases "nullish x"; cases "localizable x"; cases "localizableAll (y # ys)")
       (auto simp: exc_is_TypeError split: sum.splits)
next
  case (9 L x)
  then show ?case by (cases x) auto
qed auto

lemma toLocaleString_localizable:
  "localizable v \<Longrightarrow> toLocaleString L v = Inr (projr (toLocaleString L v))"
  using toLocaleString_total(1) [of v L] by auto

lemma toLocaleString_not_localizable: "\<not> localizable v \<Longrightarrow> toLocaleString L v = Inl TypeError"
  using toLocaleString_total(1) [of v L] by auto

lemma coalesce_simps [simp]:
  "coalesce JUndefined b = b" "coalesce JNull b = b"
  "coalesce (JNum x) b = JNum x" "coalesce (JStr t) b = JStr t" "coalesce (JBool c) b = JBool c"
  "coalesce (JArr xs) b = JArr xs" "coalesce (JObj props) b = JObj props"
  by (simp_all add: coalesce_def)

lemma stringable_coalesce_string: "stringable v \<Longrightarrow> stringable (coalesce v (JStr t))"
  by (cases v) simp_all

section \<open>The callback on one item\<close>

lemma getProp_field: "\<not> nullish item \<Longrightarrow> getProp item name = Inr (field item name)"
  by (cases item) (simp_all add: field_def)

lemma parseFloat_eq:
  "parseFloat v = (if stringable v then Inr (JNum (parseFloatStr (projr (ToString v)))) else Inl TypeError)"
proof (cases "stringable v")
  case True
  then obtain t where "ToString v = Inr t" using ToString_total(1) [of v] by auto
  with True show ?thesis by (simp add: parseFloat_def)
next
  case False
  then show ?thesis by (simp add: parseFloat_def ToString_not_stringable)
qed

lemma priceOf_eq:
  "\<not> nullish item \<Longrightarrow> priceOf item name =
     (if stringable (field item name)
      then Inr (JNum (parseFloatStr (projr (ToString (field item name))))) else Inl TypeError)"
  by (simp add: priceOf_def getProp_field parseFloat_eq)

lemma volumeOf_eq:
  "\<not> nullish item \<Longrightarrow> volumeOf L item =
     (if nullish (field item ''Volume'') then Inr (JStr ''N/A'')
      else if localizable (field item ''Volume'')
      then Inr (JStr (projr (toLocaleString L (field item ''Volume''))))
      else Inl TypeError)"
proof -
  assume n: "\<not> nullish item"
  show ?thesis
  proof (cases "nullish (field item ''Volume'')")
    case True
    with n show ?thesis by (simp add: volumeOf_def getProp_field)
  next
    case nn: False
    show ?thesis
    proof (cases "localizable (field item ''Volume'')")
      case True
      then obtain t where "toLocaleString L (field item ''Volume'') = Inr t"
        using toLocaleString_total(1) [of "field item ''Volume''" L] by auto
      with n nn True show ?thesis by (simp add: volumeOf_def getProp_field)
    next
      case False
      with n nn show ?thesis
        by (simp add: volumeOf_def getProp_field toLocaleString_not_localizable)
    qed
  qed
qed

lemma scoreOf_eq:
  "\<not> nullish item \<Longrightarrow> scoreOf item =
     (if coalesce (field item ''Similarity'') (field item ''Variance'') = JUndefined
      then Inr (if field item ''Similarity'' \<noteq> JUndefined then ''Similarity'' else ''Variance'', ''N/A'')
      else if stringable (coalesce (field item ''Similarity'') (field item ''Variance''))
      then Inr (if field item ''Similarity'' \<noteq> JUndefined then ''Similarity'' else ''Variance'',
                toFixedNum 4 (parseFloatStr (projr (ToString
                   (coalesce (field item ''Similarity'') (field item ''Variance''))))))
      else Inl TypeError)"
  by (simp add: scoreOf_def getProp_field parseFloat_eq Let_def)

lemma deriveValues_nullish: "nullish item \<Longrightarrow> deriveValues L item = Inl TypeError"
  using getProp_nullish [of item "''Rank''"] by (simp add: deriveValues_def)

lemma deriveValues_eq:
  assumes "\<not> nullish item"
  shows "deriveValues L item =
     (if stringable (field item ''Open'') \<and> stringable (field item ''High'')
         \<and> stringable (field item ''Low'') \<and> stringable (field item ''Close'')
         \<and> (nullish (field item ''Volume'') \<or> localizable (field item ''Volume''))
         \<and> stringable (coalesce (field item ''Similarity'') (field item ''Variance''))
      then Inr \<lparr>rank = coalesce (field item ''Rank'') (JStr ''N/A''),
                date = coalesce (field item ''Date'') (JStr ''N/A''),
                open_price = JNum (parseFloatStr (projr (ToString (field item ''Open'')))),
                high_price = JNum (parseFloatStr (projr (ToString (field item ''High'')))),
                low_price = JNum (parseFloatStr (projr (ToString (field item ''Low'')))),
                close_price = JNum (parseFloatStr (projr (ToString (field item ''Close'')))),
                volume = (if nullish (field item ''Volume'') then JStr ''N/A''
                          else JStr (projr (toLocaleString L (field item ''Volume'')))),
                scoreType = (if field item ''Similarity'' \<noteq> JUndefined then ''Similarity'' else ''Variance''),
                score = (if coalesce (field item ''Similarity'') (field item ''Variance'') = JUndefined
                         then ''N/A''
                         else toFixedNum 4 (parseFloatStr (projr (ToString
                                (coalesce (field item ''Similarity'') (field item ''Variance''))))))\<rparr>
      else Inl TypeError)"
  using assms
  by (simp add: deriveValues_def getProp_field priceOf_eq volumeOf_eq scoreOf_eq)

lemma deriveValues_ok:
  assumes "entryOK item"
  shows "deriveValues L item = Inr (theValues L item)"
    and "rank (theValues L item) = coalesce (field item ''Rank'') (JStr ''N/A'')"
    and "date (theValues L item) = coalesce (field item ''Date'') (JStr ''N/A'')"
    and "open_price (theValues L item) = JNum (parseFloatStr (projr (ToString (field item ''Open''))))"
    and "high_price (theValues L item) = JNum (parseFloatStr (projr (ToString (field item ''High''))))"
    and "low_price (theValues L item) = JNum (parseFloatStr (projr (ToString (field item ''Low''))))"
    and "close_price (theValues L item) = JNum (parseFloatStr (projr (ToString (field item ''Close''))))"
    and "volume (theValues L item) =
           (if nullish (field item ''Volume'') then JStr ''N/A''
            else JStr (projr (toLocaleString L (field item ''Volume''))))"
    and "scoreType (theValues L item) =
           (if field item ''Similarity'' \<noteq> JUndefined then ''Similarity'' else ''Variance'')"
    and "score (theValues L item) =
           (if coalesce (field item ''Similarity'') (field item ''Variance'') = JUndefined then ''N/A''
            else toFixedNum 4 (parseFloatStr (projr (ToString
                   (coalesce (field item ''Similarity'') (field item ''Variance''))))))"
  using assms by (simp_all add: entryOK_def theValues_def deriveValues_eq)

lemma deriveValues_bad: "\<not> entryOK item \<Longrightarrow> stringable (field item ''Date'') \<Longrightarrow>
    stringable (field item ''Rank'') \<Longrightarrow> deriveValues L item = Inl TypeError"
  by (cases "nullish item") (auto simp add: entryOK_def deriveValues_eq deriveValues_nullish)

lemma cardOf_ok:
  assumes "entryOK item"
  shows "cardOf (theValues L item) =
     Inr \<lparr>date_text = projr (ToString (coalesce (field item ''Date'') (JStr ''N/A''))),
          rank_text = projr (ToString (coalesce (field item ''Rank'') (JStr ''N/A''))),
          open_text = toFixedNum 2 (parseFloatStr (projr (ToString (field item ''Open'')))),
          high_text = toFixedNum 2 (parseFloatStr (projr (ToString (field item ''High'')))),
          low_text = toFixedNum 2 (parseFloatStr (projr (ToString (field item ''Low'')))),
          close_text = toFixedNum 2 (parseFloatStr (projr (ToString (field item ''Close'')))),
          volume_text = (if nullish (field item ''Volume'') then ''N/A''
                         else projr (toLocaleString L (field item ''Volume''))),
          scoreType_text = (if field item ''Similarity'' \<noteq> JUndefined then ''Similarity'' else ''Variance''),
          score_text =
            (if coalesce (field item ''Similarity'') (field item ''Variance'') = JUndefined then ''N/A''
             else toFixedNum 4 (parseFloatStr (projr (ToString
                    (coalesce (field item ''Similarity'') (field item ''Variance''))))))\<rparr>"
proof -
  from assms have d: "stringable (coalesce (field item ''Date'') (JStr ''N/A''))"
    and r: "stringable (coalesce (field item ''Rank'') (JStr ''N/A''))"
    by (simp_all add: entryOK_def stringable_coalesce_string)
  show ?thesis
    unfolding cardOf_def deriveValues_ok(2-10) [OF assms]
    by (subst ToString_stringable [OF d], subst ToString_stringable [OF r]) simp
qed

lemma cardOf_bad:
  assumes "deriveValues L item = Inr v"
    and "\<not> (stringable (field item ''Date'') \<and> stringable (field item ''Rank''))"
  shows "cardOf v = Inl TypeError"
proof -
  from assms(1) have nn: "\<not> nullish item"
    by (auto simp: deriveValues_nullish)
  from assms(1) have rd: "rank v = coalesce (field item ''Rank'') (JStr ''N/A'')"
      "date v = coalesce (field item ''Date'') (JStr ''N/A'')"
    by (auto simp: deriveValues_eq [OF nn] split: if_splits)
  have c: "\<not> stringable x \<Longrightarrow> coalesce x (JStr ''N/A'') = x" for x
    by (cases x) simp_all
  show ?thesis
  proof (cases "stringable (field item ''Date'')")
    case False
    then show ?thesis
      by (simp add: cardOf_def rd c ToString_not_stringable)
  next
    case True
    with assms(2) have nr: "\<not> stringable (field item ''Rank'')" by simp
    from True have "stringable (coalesce (field item ''Date'') (JStr ''N/A''))"
      by (rule stringable_coalesce_string)
    then obtain t where "ToString (coalesce (field item ''Date'') (JStr ''N/A'')) = Inr t"
      using ToString_total(1) by blast
    with nr show ?thesis
      by (simp add: cardOf_def rd c ToString_not_stringable)
  qed
qed

lemma cardFor_ok:
  assumes "entryOK item"
  shows "cardFor L item = Inr (theCard L item)"
    and "date_text (theCard L item) = projr (ToString (coalesce (field item ''Date'') (JStr ''N/A'')))"
    and "rank_text (theCard L item) = projr (ToString (coalesce (field item ''Rank'') (JStr ''N/A'')))"
    and "open_text (theCard L item) = toFixedNum 2 (parseFloatStr (projr (ToString (field item ''Open''))))"
    and "high_text (theCard L item) = toFixedNum 2 (parseFloatStr (projr (ToString (field item ''High''))))"
    and "low_text (theCard L item) = toFixedNum 2 (parseFloatStr (projr (ToString (field item ''Low''))))"
    and "close_text (theCard L item) = toFixedNum 2 (parseFloatStr (projr (ToString (field item ''Close''))))"
    and "volume_text (theCard L item) =
           (if nullish (field item ''Volume'') then ''N/A''
            else projr (toLocaleString L (field item ''Volume'')))"
    and "scoreType_text (theCard L item) =
           (if field item ''Similarity'' \<noteq> JUndefined then ''Similarity'' else ''Variance'')"
    and "score_text (theCard L item) =
           (if coalesce (field item ''Similarity'') (field item ''Variance'') = JUndefined then ''N/A''
            else toFixedNum 4 (parseFloatStr (projr (ToString
                   (coalesce (field item ''Similarity'') (field item ''Variance''))))))"
  by (simp_all add: theCard_def cardFor_def deriveValues_ok(1) [OF assms] cardOf_ok [OF assms])

lemma cardFor_bad:
  assumes "\<not> entryOK item"
  shows "cardFor L item = Inl TypeError"
proof (cases "deriveValues L item")
  case (Inl e)
  then show ?thesis by (simp add: cardFor_def exc_is_TypeError)
next
  case (Inr v)
  with assms have "\<not> (stringable (field item ''Date'') \<and> stringable (field item ''Rank''))"
    using deriveValues_bad [of item L] by auto
  from cardOf_bad [OF Inr this] Inr show ?thesis by (simp add: cardFor_def)
qed

lemma labelFor_ok:
  assumes "entryOK item"
  shows "labelFor L item = Inr (theLabel L item)"
    and "theLabel L item =
           ''Rank '' @ rank_text (theCard L item) @ '' ('' @ date_text (theCard L item) @ '')''"
proof -
  from assms have d: "stringable (coalesce (field item ''Date'') (JStr ''N/A''))"
    and r: "stringable (coalesce (field item ''Rank'') (JStr ''N/A''))"
    by (simp_all add: entryOK_def stringable_coalesce_string)
  from d obtain td where td: "ToString (coalesce (field item ''Date'') (JStr ''N/A'')) = Inr td"
    using ToString_total(1) by blast
  from r obtain tr where tr: "ToString (coalesce (field item ''Rank'') (JStr ''N/A'')) = Inr tr"
    using ToString_total(1) by blast
  have "labelFor L item =
      Inr (''Rank '' @ rank_text (theCard L item) @ '' ('' @ date_text (theCard L item) @ '')'')"
    unfolding labelFor_def deriveValues_ok(1) [OF assms] cardFor_ok(2,3) [OF assms]
    by (simp add: chartLabel_def deriveValues_ok(2,3) [OF assms] td tr)
  then show "labelFor L item = Inr (theLabel L item)"
    and "theLabel L item =
           ''Rank '' @ rank_text (theCard L item) @ '' ('' @ date_text (theCard L item) @ '')''"
    by (simp_all add: theLabel_def)
qed

lemma priceOf_ok:
  assumes "entryOK item" and "name \<in> {''Open'', ''High'', ''Low'', ''Close''}"
  shows "priceOf item name = Inr (thePrice item name)"
    and "thePrice item name = JNum (parseFloatStr (projr (ToString (field item name))))"
  using assms by (auto simp add: entryOK_def thePrice_def priceOf_eq)

lemma callback_ok:
  assumes "entryOK item"
  shows "callback L item (s, chartLabels, cd) =
     (Returned,
      (s\<lparr>resultsContainer := resultsContainer s @ [ResultCard (theCard L item)]\<rparr>,
       (if hasOpen item then chartLabels @ [theLabel L item] else chartLabels),
       (if hasOpen item
        then \<lparr>data_open = data_open cd @ [thePrice item ''Open''],
              data_high = data_high cd @ [thePrice item ''High''],
              data_low = data_low cd @ [thePrice item ''Low''],
              data_close = data_close cd @ [thePrice item ''Close'']\<rparr>
        else cd)))"
proof -
  from assms have nn: "\<not> nullish item" by (simp add: entryOK_def)
  have c: "cardOf (theValues L item) = Inr (theCard L item)"
    using cardFor_ok(1) [OF assms, of L] by (simp add: cardFor_def deriveValues_ok(1) [OF assms])
  have l: "chartLabel (theValues L item) = Inr (theLabel L item)"
    using labelFor_ok(1) [OF assms, of L] by (simp add: labelFor_def deriveValues_ok(1) [OF assms])
  have p: "open_price (theValues L item) = thePrice item ''Open''"
      "high_price (theValues L item) = thePrice item ''High''"
      "low_price (theValues L item) = thePrice item ''Low''"
      "close_price (theValues L item) = thePrice item ''Close''"
    using assms by (simp_all add: deriveValues_ok(4-7) priceOf_ok(2))
  show ?thesis
    by (simp add: callback_def deriveValues_ok(1) [OF assms] c l p getProp_field [OF nn] hasOpen_def)
qed

lemma callback_bad:
  assumes "\<not> entryOK item"
  shows "callback L item st = (Threw TypeError, st)"
proof -
  have "bindE (deriveValues L item) (\<lambda>v. bindE (cardOf v) (\<lambda>c. Inr (v, c))) = Inl TypeError"
    using cardFor_bad [OF assms, of L]
    by (cases "deriveValues L item") (auto simp: cardFor_def bindE_def split: sum.splits)
  then show ?thesis
    by (cases st) (simp add: callback_def)
qed

section \<open>The loop and the whole of displayResults\<close>

lemma forEach_callback:
  "forEach (callback L) items (s, chartLabels, cd) =
     ((if list_all entryOK items then Returned else Threw TypeError),
      (s\<lparr>resultsContainer :=
           resultsContainer s @ map (\<lambda>i. ResultCard (theCard L i)) (takeWhile entryOK items)\<rparr>,
       chartLabels @ map (theLabel L) (filter hasOpen (takeWhile entryOK items)),
       \<lparr>data_open = data_open cd @ map (\<lambda>i. thePrice i ''Open'') (filter hasOpen (takeWhile entryOK items)),
        data_high = data_high cd @ map (\<lambda>i. thePrice i ''High'') (filter hasOpen (takeWhile entryOK items)),
        data_low = data_low cd @ map (\<lambda>i. thePrice i ''Low'') (filter hasOpen (takeWhile entryOK items)),
        data_close = data_close cd @ map (\<lambda>i. thePrice i ''Close'') (filter hasOpen (takeWhile entryOK items))\<rparr>))"
proof (induction items arbitrary: s chartLabels cd)
  case Nil
  show ?case by simp
next
  case (Cons item items)
  show ?case
  proof (cases "entryOK item")
    case True
    show ?thesis
      by (simp add: True callback_ok [OF True] Cons.IH)
  next
    case False
    show ?thesis
      by (simp add: False callback_bad [OF False])
  qed
qed

lemma takeWhile_all: "list_all P xs \<Longrightarrow> takeWhile P xs = xs"
  by (induction xs) simp_all

lemma displayResults_array:
  assumes "items \<noteq> []"
  shows "displayResults L (JArr items) s =
     (if \<not> list_all entryOK items
      then (Threw TypeError,
            (clearResults s)\<lparr>resultsContainer :=
               map (\<lambda>i. ResultCard (theCard L i)) (takeWhile entryOK items)\<rparr>)
      else if filter hasOpen items = []
      then (Returned,
            (clearResults s)\<lparr>resultsContainer := map (\<lambda>i. ResultCard (theCard L i)) items\<rparr>)
      else (Returned,
            (clearResults s)\<lparr>resultsContainer := map (\<lambda>i. ResultCard (theCard L i)) items,
                              chartContainer_display := ''block'',
                              liveCharts := liveCharts (clearResults s) + {#chartOf L items#},
                              resultsChart := Some (chartOf L items)\<rparr>))"
  using assms
  by (simp add: displayResults_def Let_def forEach_callback takeWhile_all chartOf_def)

lemma clearResults_after_cards:
  "clearResults ((clearResults s)\<lparr>resultsContainer := R\<rparr>) = clearResults s"
  by (simp add: clearResults_def Let_def split: option.split)

lemma clearResults_after_chart:
  "clearResults ((clearResults s)\<lparr>resultsContainer := R, chartContainer_display := D,
       liveCharts := liveCharts (clearResults s) + {#c#}, resultsChart := Some c\<rparr>) = clearResults s"
  by (simp add: clearResults_def Let_def split: option.split)

lemma displayResults_state:
  "(\<exists>R. snd (displayResults L data s) = (clearResults s)\<lparr>resultsContainer := R\<rparr>) \<or>
   (\<exists>R c. snd (displayResults L data s) =
        (clearResults s)\<lparr>resultsContainer := R, chartContainer_display := ''block'',
           liveCharts := liveCharts (clearResults s) + {#c#}, resultsChart := Some c\<rparr>)"
proof (cases "nullish data")
  case True
  have "snd (displayResults L data s) = (clearResults s)\<lparr>resultsContainer := []\<rparr>"
    by (simp add: displayResults_nullish [OF True] clearResults_def Let_def split: option.split)
  then show ?thesis by blast
next
  case False
  then have g: "getProp data ''detail'' = Inr (field data ''detail'')"
    by (rule getProp_field)
  show ?thesis
  proof (cases "truthy (field data ''detail'')")
    case True
    show ?thesis
    proof (cases "ToString (field data ''detail'')")
      case (Inl e)
      with g True have "snd (displayResults L data s) = (clearResults s)\<lparr>resultsContainer := []\<rparr>"
        by (simp add: displayResults_def Let_def clearResults_def split: option.split)
      then show ?thesis by blast
    next
      case (Inr t)
      from displayResults_error [OF g True Inr] show ?thesis by auto
    qed
  next
    case nt: False
    show ?thesis
    proof (cases "\<not> isArray data \<or> elements data = []")
      case True
      from displayResults_empty [OF g nt True] show ?thesis by auto
    next
      case False
      then obtain items where d: "data = JArr items" and ne: "items \<noteq> []"
        by (cases data) auto
      show ?thesis
        unfolding d displayResults_array [OF ne]
        by (auto simp del: clearResults_liveCharts)
    qed
  qed
qed

lemma displayResults_cleared:
  "clearResults s = clearResults s' \<Longrightarrow> displayResults L data s = displayResults L data s'"
  by (simp add: displayResults_def)

lemma clearResults_displayResults:
  "clearResults (snd (displayResults L data s)) = clearResults s"
proof -
  from displayResults_state [of L data s] show ?thesis
  proof (elim disjE exE)
    fix R
    assume "snd (displayResults L data s) = (clearResults s)\<lparr>resultsContainer := R\<rparr>"
    then show ?thesis by (simp only: clearResults_after_cards)
  next
    fix R c
    assume "snd (displayResults L data s) =
        (clearResults s)\<lparr>resultsContainer := R, chartContainer_display := ''block'',
           liveCharts := liveCharts (clearResults s) + {#c#}, resultsChart := Some c\<rparr>"
    then show ?thesis by (simp only: clearResults_after_chart)
  qed
qed

section \<open>Evaluating the number functions\<close>

lemma floor_rat_numeral_div [simp]: "\<lfloor>(numeral a :: rat) / numeral b\<rfloor> = numeral a div numeral b"
  using floor_divide_of_int_eq [of "numeral a" "numeral b", where ?'a = rat] by simp

lemma floor_rat_one_div [simp]: "\<lfloor>(1 :: rat) / numeral b\<rfloor> = 1 div numeral b"
  using floor_divide_of_int_eq [of 1 "numeral b", where ?'a = rat] by simp

lemma ceiling_rat_numeral_div [simp]: "\<lceil>(numeral a :: rat) / numeral b\<rceil> = - (- numeral a div numeral b)"
  using floor_divide_of_int_eq [of "- numeral a" "numeral b", where ?'a = rat]
  by (simp add: ceiling_def)

lemma ceiling_rat_one_div [simp]: "\<lceil>(1 :: rat) / numeral b\<rceil> = - (- 1 div numeral b)"
  using floor_divide_of_int_eq [of "- 1" "numeral b", where ?'a = rat]
  by (simp add: ceiling_def)

lemma digitCount_pos: "1 < b \<Longrightarrow> 0 < n \<Longrightarrow> 0 < digitCount b n"
  by (subst digitCount.simps) simp

lemma digitCount_le: "1 < b \<Longrightarrow> n < b ^ k \<Longrightarrow> digitCount b n \<le> k"
proof (induction k arbitrary: n)
  case 0
  then show ?case by (subst digitCount.simps) simp
next
  case (Suc k)
  show ?case
  proof (cases "0 < n")
    case False
    then show ?thesis by (subst digitCount.simps) simp
  next
    case True
    from Suc.prems have "n div b < b ^ k"
      by (simp add: less_mult_imp_div_less mult.commute)
    with Suc.IH [of "n div b"] Suc.prems(1) have "digitCount b (n div b) \<le> k" by simp
    with True Suc.prems(1) show ?thesis by (subst digitCount.simps) simp
  qed
qed

lemma roundHalfEven_of_int: "roundHalfEven (of_int N) = N"
  by (simp add: roundHalfEven_def)

lemma roundF_of_int:
  assumes "0 < m" and "m < 2 ^ 53"
  shows "roundF (of_int m) = Fin (of_int m)"
proof -
  define d where "d = digitCount 2 (nat m)"
  from assms have d1: "0 < d" unfolding d_def by (intro digitCount_pos) auto
  from assms have "nat m < 2 ^ 53" by (simp add: nat_less_iff)
  then have d2: "d \<le> 53" unfolding d_def by (intro digitCount_le) auto
  have il: "ilog 2 (of_int m) = int d - 1"
    using assms by (simp add: ilog_def d_def)
  define j where "j = 53 - d"
  have u: "pow2 (int d - 1 - 52) = 1 / 2 ^ j"
    using d2 by (auto simp add: pow2_def j_def nat_diff_distrib')
  have q: "(of_int m :: rat) / (1 / 2 ^ j) = of_int (m * 2 ^ j)"
    by simp
  have mx: "max (int d - 1) (- 1022) = int d - 1" using d1 by simp
  have ne: "(of_int m :: rat) \<noteq> 0" "\<not> (of_int m :: rat) < 0" "\<bar>of_int m :: rat\<bar> = of_int m"
    using assms by simp_all
  show ?thesis
    unfolding roundF_def Let_def ne il mx u q roundHalfEven_of_int
    using ne d2 assms by simp
qed

lemma roundF_numeral:
  "(numeral w :: int) < 9007199254740992 \<Longrightarrow> roundF (numeral w) = Fin (numeral w)"
  using roundF_of_int [of "numeral w"] by simp

lemma roundF_one: "roundF 1 = Fin 1"
  using roundF_of_int [of 1] by simp

lemma shortestDigits_numeral:
  "shortestDigits q n0 k (numeral v) =
     (case digitCandidates q k n0 @ digitCandidates q k (n0 + 1) of
        [] \<Rightarrow> shortestDigits q n0 (Suc k) (pred_numeral v)
      | c # cs \<Rightarrow> (case foldl (closer q k) c cs of (n, s) \<Rightarrow> (n, k, s)))"
  by (simp add: numeral_eq_Suc)


lemma replicate_numeral: "replicate (numeral k) x = x # replicate (pred_numeral k) x"
  by (simp add: numeral_eq_Suc)

lemmas numToString_eval = replicate_numeral
  numToString_def ilog_def digitCount.simps shortestDigits_numeral digitCandidates_def pow10_def
  roundF_numeral roundF_one closer_def formatDigits_def natToDec.simps digitChar_def Let_def

lemma numToString_1: "numToString (Fin 1) = ''1''"
  by (simp add: numToString_eval)

lemma numToString_2: "numToString (Fin 2) = ''2''"
  by (simp add: numToString_eval)

lemma numToString_12000: "numToString (Fin 12000) = ''12000''"
  by (simp add: numToString_eval)

lemma roundF_half: "roundF (1 / 2) = Fin (1 / 2)"
  unfolding roundF_def Let_def
  apply (simp add: ilog_def digitCount.simps)
  apply (simp add: pow2_def roundHalfEven_def Let_def)
  done

lemma roundF_3_5: "roundF (3 / 5) = Fin (5404319552844595 / 9007199254740992)"
  unfolding roundF_def Let_def
  apply (simp add: ilog_def digitCount.simps)
  apply (simp add: pow2_def roundHalfEven_def Let_def)
  done

lemma numToString_half: "numToString (Fin (1 / 2)) = ''0.5''"
  by (simp add: numToString_eval roundF_half roundF_3_5)






lemmas parse_eval =
  parseFloatStr_def unsignedLiteral_def exponentPart_def isWhiteSpace_def isDigit_def decValue_def
  pow10_def Let_def

lemma parse_undefined: "parseFloatStr ''undefined'' = NaN"
  by (simp add: parse_eval)

lemma parse_0: "parseFloatStr ''0'' = Fin 0"
  by (simp add: parse_eval roundF_def)

lemma parse_half: "parseFloatStr ''0.5'' = Fin (1 / 2)"
  by (simp add: parse_eval roundF_half)


lemmas toFixed_eval = toFixedNum_def fixedDigits_def natToDec.simps digitChar_def Let_def replicate_numeral

lemma toFixed4_0: "toFixedNum 4 (Fin 0) = ''0.0000''"
  by (simp add: toFixed_eval)

lemma toFixed4_half: "toFixedNum 4 (Fin (1 / 2)) = ''0.5000''"
  by (simp add: toFixed_eval)


lemma toFixed_NaN: "toFixedNum f NaN = ''NaN''"
  by (simp add: toFixedNum_def numToString_def)

section \<open>The sample payloads, evaluated\<close>

lemma roundF_201_2: "roundF (201 / 2) = Fin (201 / 2)"
  unfolding roundF_def Let_def
  apply (simp add: ilog_def digitCount.simps)
  apply (simp add: pow2_def roundHalfEven_def Let_def)
  done

lemma roundF_397_4: "roundF (397 / 4) = Fin (397 / 4)"
  unfolding roundF_def Let_def
  apply (simp add: ilog_def digitCount.simps)
  apply (simp add: pow2_def roundHalfEven_def Let_def)
  done

lemma parse_prices:
  "parseFloatStr ''100.5'' = Fin (201 / 2)"
  "parseFloatStr ''101'' = Fin 101"
  "parseFloatStr ''99.25'' = Fin (397 / 4)"
  "parseFloatStr ''100'' = Fin 100"
  by (simp_all add: parse_eval roundF_201_2 roundF_397_4 roundF_numeral)

lemma toFixed2_prices:
  "toFixedNum 2 (Fin (201 / 2)) = ''100.50''"
  "toFixedNum 2 (Fin 101) = ''101.00''"
  "toFixedNum 2 (Fin (397 / 4)) = ''99.25''"
  "toFixedNum 2 (Fin 100) = ''100.00''"
  by (simp_all add: toFixed_eval)

lemma numToString_0: "numToString (Fin 0) = ''0''"
  by (simp add: numToString_def)

lemma entryOK_patternEntry: "entryOK patternEntry"
  by (simp add: entryOK_def patternEntry_def field_def)

lemma entryOK_volatilityEntry: "entryOK volatilityEntry"
  by (simp add: entryOK_def volatilityEntry_def field_def)

lemma hasOpen_samples: "hasOpen patternEntry" "\<not> hasOpen volatilityEntry"
  by (simp_all add: hasOpen_def patternEntry_def volatilityEntry_def field_def)

lemma theCard_patternEntry: "theCard plainLocale patternEntry = patternCard"
  by (rule card.equality)
     (simp_all add: cardFor_ok(2-10) [OF entryOK_patternEntry] patternCard_def,
      simp_all add: patternEntry_def field_def plainLocale_def parse_prices toFixed2_prices
        numToString_1 numToString_12000 parse_0 toFixed4_0 numToString_0)

lemma theCard_volatilityEntry: "theCard plainLocale volatilityEntry = volatilityCard"
  by (rule card.equality)
     (simp_all add: cardFor_ok(2-10) [OF entryOK_volatilityEntry] volatilityCard_def,
      simp_all add: volatilityEntry_def field_def parse_undefined toFixed_NaN
        numToString_2 numToString_half parse_half toFixed4_half)

lemma theLabel_patternEntry: "theLabel plainLocale patternEntry = ''Rank 1 (2021-03-04)''"
  by (simp add: labelFor_ok(2) [OF entryOK_patternEntry] theCard_patternEntry patternCard_def)

lemma thePrice_patternEntry:
  "thePrice patternEntry ''Open'' = JNum (Fin (201 / 2))"
  "thePrice patternEntry ''High'' = JNum (Fin 101)"
  "thePrice patternEntry ''Low'' = JNum (Fin (397 / 4))"
  "thePrice patternEntry ''Close'' = JNum (Fin 100)"
  by (simp_all add: priceOf_ok(2) [OF entryOK_patternEntry],
      simp_all add: patternEntry_def field_def parse_prices)

lemma chartOf_samples: "chartOf plainLocale [patternEntry, volatilityEntry] = patternChart"
  by (simp add: chartOf_def newChart_def hasOpen_samples theLabel_patternEntry thePrice_patternEntry
        patternChart_def)

lemma displayResults_samples:
  "displayResults plainLocale (JArr [patternEntry, volatilityEntry]) s =
     (Returned,
      \<lparr>resultsContainer = [ResultCard patternCard, ResultCard volatilityCard],
       chartContainer_display = ''block'',
       resultsChart = Some patternChart,
       liveCharts = liveCharts (clearResults s) + {#patternChart#}\<rparr>)"
  by (simp add: displayResults_array entryOK_patternEntry entryOK_volatilityEntry hasOpen_samples
        theCard_patternEntry theCard_volatilityEntry chartOf_samples)

section \<open>Cards and chart of a result set\<close>

text \<open>
  C6. For every array of \<open>n \<ge> 1\<close> entries on which the callback does not throw (every
  entry passes \<open>entryOK\<close>: any object whose fields are numbers, strings, booleans or
  \<^verbatim>\<open>null\<close> does), \<^verbatim>\<open>displayResults\<close> returns and the results container holds exactly
  \<open>n\<close> result cards, the \<open>i\<close>-th being the card the callback builds for the \<open>i\<close>-th
  entry.
\<close>

theorem C6_one_card_per_entry_in_order:
  assumes "items \<noteq> []" and "list_all entryOK items"
  shows "fst (displayResults L (JArr items) s) = Returned
       \<and> resultsContainer (snd (displayResults L (JArr items) s)) = map (\<lambda>i. ResultCard (theCard L i)) items
       \<and> length (resultsContainer (snd (displayResults L (JArr items) s))) = length items
       \<and> (\<forall>k < length items.
             cardFor L (items ! k) = Inr (theCard L (items ! k))
             \<and> resultsContainer (snd (displayResults L (JArr items) s)) ! k = ResultCard (theCard L (items ! k)))"
proof -
  have r: "resultsContainer (snd (displayResults L (JArr items) s)) = map (\<lambda>i. ResultCard (theCard L i)) items"
    and f: "fst (displayResults L (JArr items) s) = Returned"
    using assms(2) by (simp_all add: displayResults_array [OF assms(1)])
  have "cardFor L (items ! k) = Inr (theCard L (items ! k))" if "k < length items" for k
    using assms(2) that by (simp add: cardFor_ok(1) list_all_length)
  then show ?thesis
    by (simp add: r f)
qed

theorem C6_one_card_per_entry_in_order_witness:
  "fst (displayResults plainLocale (JArr [patternEntry, volatilityEntry]) pageLoad) = Returned
   \<and> resultsContainer (snd (displayResults plainLocale (JArr [patternEntry, volatilityEntry]) pageLoad))
       = [ResultCard patternCard, ResultCard volatilityCard]
   \<and> cardFor plainLocale patternEntry = Inr patternCard
   \<and> cardFor plainLocale volatilityEntry = Inr volatilityCard"
proof -
  have ok: "list_all entryOK [patternEntry, volatilityEntry]"
    by (simp add: entryOK_patternEntry entryOK_volatilityEntry)
  have ne: "[patternEntry, volatilityEntry] \<noteq> []" by simp
  note t = C6_one_card_per_entry_in_order [OF ne ok, of plainLocale pageLoad]
  from t have a: "fst (displayResults plainLocale (JArr [patternEntry, volatilityEntry]) pageLoad) = Returned"
    by blast
  from t have b: "resultsContainer (snd (displayResults plainLocale (JArr [patternEntry, volatilityEntry]) pageLoad))
       = map (\<lambda>i. ResultCard (theCard plainLocale i)) [patternEntry, volatilityEntry]"
    by blast
  from t have c: "\<forall>k < length [patternEntry, volatilityEntry].
      cardFor plainLocale ([patternEntry, volatilityEntry] ! k) = Inr (theCard plainLocale ([patternEntry, volatilityEntry] ! k))"
    by blast
  from c [rule_format, of 0] have c0: "cardFor plainLocale patternEntry = Inr patternCard"
    by (simp add: theCard_patternEntry)
  from c [rule_format, of 1] have c1: "cardFor plainLocale volatilityEntry = Inr volatilityCard"
    by (simp add: theCard_volatilityEntry)
  from a b c0 c1 show ?thesis
    by (simp add: theCard_patternEntry theCard_volatilityEntry)
qed

text \<open>
  C5. For every non-empty array of entries on which the callback does not throw,
  \<^verbatim>\<open>displayResults\<close> returns, and the chart container is shown exactly when some entry has
  an \<^verbatim>\<open>Open\<close> that is not \<^verbatim>\<open>undefined\<close>. The chart then built has one label and one
  value in each of its four datasets for each such entry, in the order of the entries;
  without such an entry no chart is built. Every entry, with or without \<^verbatim>\<open>Open\<close>, has
  its card.
\<close>

theorem C5_chart_of_entries_with_open:
  assumes "items \<noteq> []" and "list_all entryOK items"
  shows "fst (displayResults L (JArr items) s) = Returned
       \<and> (chartContainer_display (snd (displayResults L (JArr items) s)) = ''block''
            \<longleftrightarrow> (\<exists>i \<in> set items. hasOpen i))
       \<and> (chartContainer_display (snd (displayResults L (JArr items) s)) = ''none''
            \<longleftrightarrow> \<not> (\<exists>i \<in> set items. hasOpen i))
       \<and> resultsChart (snd (displayResults L (JArr items) s))
            = (if \<exists>i \<in> set items. hasOpen i then Some (chartOf L items) else None)
       \<and> labels (chartOf L items) = map (theLabel L) (filter hasOpen items)
       \<and> datasets (chartOf L items)
            = [(''Open'', map (\<lambda>i. thePrice i ''Open'') (filter hasOpen items)),
               (''High'', map (\<lambda>i. thePrice i ''High'') (filter hasOpen items)),
               (''Low'', map (\<lambda>i. thePrice i ''Low'') (filter hasOpen items)),
               (''Close'', map (\<lambda>i. thePrice i ''Close'') (filter hasOpen items))]
       \<and> length (labels (chartOf L items)) = length (filter hasOpen items)
       \<and> (\<forall>d \<in> set (datasets (chartOf L items)). length (snd d) = length (filter hasOpen items))
       \<and> length (resultsContainer (snd (displayResults L (JArr items) s))) = length items
       \<and> (\<forall>i \<in> set items.
             labelFor L i = Inr (theLabel L i)
             \<and> theLabel L i = ''Rank '' @ rank_text (theCard L i) @ '' ('' @ date_text (theCard L i) @ '')''
             \<and> priceOf i ''Open'' = Inr (thePrice i ''Open'') \<and> priceOf i ''High'' = Inr (thePrice i ''High'')
             \<and> priceOf i ''Low'' = Inr (thePrice i ''Low'') \<and> priceOf i ''Close'' = Inr (thePrice i ''Close''))"
proof -
  have p9: "\<forall>i \<in> set items.
             labelFor L i = Inr (theLabel L i)
             \<and> theLabel L i = ''Rank '' @ rank_text (theCard L i) @ '' ('' @ date_text (theCard L i) @ '')''
             \<and> priceOf i ''Open'' = Inr (thePrice i ''Open'') \<and> priceOf i ''High'' = Inr (thePrice i ''High'')
             \<and> priceOf i ''Low'' = Inr (thePrice i ''Low'') \<and> priceOf i ''Close'' = Inr (thePrice i ''Close'')"
  proof
    fix i assume "i \<in> set items"
    with assms(2) have ok: "entryOK i" by (simp add: list_all_iff)
    from labelFor_ok [OF ok, of L] priceOf_ok(1) [OF ok]
    show "labelFor L i = Inr (theLabel L i)
             \<and> theLabel L i = ''Rank '' @ rank_text (theCard L i) @ '' ('' @ date_text (theCard L i) @ '')''
             \<and> priceOf i ''Open'' = Inr (thePrice i ''Open'') \<and> priceOf i ''High'' = Inr (thePrice i ''High'')
             \<and> priceOf i ''Low'' = Inr (thePrice i ''Low'') \<and> priceOf i ''Close'' = Inr (thePrice i ''Close'')"
      by simp
  qed
  have e: "(filter hasOpen items = []) = (\<not> (\<exists>i \<in> set items. hasOpen i))"
    by (simp add: filter_empty_conv)
  have p1: "fst (displayResults L (JArr items) s) = Returned"
    using assms(2) by (simp add: displayResults_array [OF assms(1)])
  have p2: "chartContainer_display (snd (displayResults L (JArr items) s))
             = (if \<exists>i \<in> set items. hasOpen i then ''block'' else ''none'')"
    using assms(2) by (simp add: displayResults_array [OF assms(1)] e)
  have p3: "resultsChart (snd (displayResults L (JArr items) s))
            = (if \<exists>i \<in> set items. hasOpen i then Some (chartOf L items) else None)"
    using assms(2) by (simp add: displayResults_array [OF assms(1)] e)
  have p4: "length (resultsContainer (snd (displayResults L (JArr items) s))) = length items"
    using assms(2) by (simp add: displayResults_array [OF assms(1)])
  have p5: "labels (chartOf L items) = map (theLabel L) (filter hasOpen items)"
    by (simp add: chartOf_def newChart_def)
  have p6: "datasets (chartOf L items)
            = [(''Open'', map (\<lambda>i. thePrice i ''Open'') (filter hasOpen items)),
               (''High'', map (\<lambda>i. thePrice i ''High'') (filter hasOpen items)),
               (''Low'', map (\<lambda>i. thePrice i ''Low'') (filter hasOpen items)),
               (''Close'', map (\<lambda>i. thePrice i ''Close'') (filter hasOpen items))]"
    by (simp add: chartOf_def newChart_def)
  have p7: "\<forall>d \<in> set (datasets (chartOf L items)). length (snd d) = length (filter hasOpen items)"
    unfolding p6 by simp
  have p8: "length (labels (chartOf L items)) = length (filter hasOpen items)"
    unfolding p5 by simp
  from p2 have p2a: "chartContainer_display (snd (displayResults L (JArr items) s)) = ''block''
            \<longleftrightarrow> (\<exists>i \<in> set items. hasOpen i)"
    and p2b: "chartContainer_display (snd (displayResults L (JArr items) s)) = ''none''
            \<longleftrightarrow> \<not> (\<exists>i \<in> set items. hasOpen i)"
    by (simp_all split: if_splits)
  from p1 p2a p2b p3 p4 p5 p6 p7 p8 p9 show ?thesis by blast
qed

theorem C5_chart_of_entries_with_open_witness:
  "chartContainer_display (snd (displayResults plainLocale (JArr [patternEntry, volatilityEntry]) pageLoad)) = ''block''
   \<and> resultsChart (snd (displayResults plainLocale (JArr [patternEntry, volatilityEntry]) pageLoad)) = Some patternChart
   \<and> filter hasOpen [patternEntry, volatilityEntry] = [patternEntry]
   \<and> length (labels patternChart) = 1
   \<and> length (resultsContainer (snd (displayResults plainLocale (JArr [patternEntry, volatilityEntry]) pageLoad))) = 2
   \<and> chartContainer_display (snd (displayResults plainLocale (JArr [volatilityEntry]) pageLoad)) = ''none''
   \<and> resultsChart (snd (displayResults plainLocale (JArr [volatilityEntry]) pageLoad)) = None
   \<and> length (resultsContainer (snd (displayResults plainLocale (JArr [volatilityEntry]) pageLoad))) = 1"
proof -
  have ok: "list_all entryOK [patternEntry, volatilityEntry]" "list_all entryOK [volatilityEntry]"
    by (simp_all add: entryOK_patternEntry entryOK_volatilityEntry)
  have ne: "[patternEntry, volatilityEntry] \<noteq> []" "[volatilityEntry] \<noteq> []" by simp_all
  have h: "\<exists>i \<in> set [patternEntry, volatilityEntry]. hasOpen i" "\<not> (\<exists>i \<in> set [volatilityEntry]. hasOpen i)"
    by (simp_all add: hasOpen_samples)
  note a = C5_chart_of_entries_with_open [OF ne(1) ok(1), of plainLocale pageLoad]
  note b = C5_chart_of_entries_with_open [OF ne(2) ok(2), of plainLocale pageLoad]
  have a1: "chartContainer_display (snd (displayResults plainLocale (JArr [patternEntry, volatilityEntry]) pageLoad)) = ''block''"
    using a h(1) by blast
  have a2: "resultsChart (snd (displayResults plainLocale (JArr [patternEntry, volatilityEntry]) pageLoad)) = Some patternChart"
    using a h(1) by (simp add: chartOf_samples)
  have a3: "length (resultsContainer (snd (displayResults plainLocale (JArr [patternEntry, volatilityEntry]) pageLoad))) = 2"
    using a by simp
  have b1: "chartContainer_display (snd (displayResults plainLocale (JArr [volatilityEntry]) pageLoad)) = ''none''"
    using b h(2) by blast
  have b2: "resultsChart (snd (displayResults plainLocale (JArr [volatilityEntry]) pageLoad)) = None"
    using b h(2) by simp
  have b3: "length (resultsContainer (snd (displayResults plainLocale (JArr [volatilityEntry]) pageLoad))) = 1"
    using b by simp
  have f: "filter hasOpen [patternEntry, volatilityEntry] = [patternEntry]"
    by (simp add: hasOpen_samples)
  have l: "length (labels patternChart) = 1" by (simp add: patternChart_def)
  from a1 a2 a3 b1 b2 b3 f l show ?thesis by blast
qed

section \<open>Rendering twice, and the life of the chart\<close>

text \<open>
  C7. For every payload and every page, rendering the payload a second time gives the same
  outcome and the same page (results container, chart visibility, chart held and live
  chart instances) as rendering it once: each call starts from the cleared page, and
  clearing the page a render leaves gives back the cleared page it started from.
\<close>

theorem C7_render_twice_same_as_once:
  "displayResults L data (snd (displayResults L data s)) = displayResults L data s
   \<and> clearResults (snd (displayResults L data s)) = clearResults s
   \<and> liveCharts (snd (displayResults L data (snd (displayResults L data s))))
       = liveCharts (snd (displayResults L data s))"
proof -
  have c: "clearResults (snd (displayResults L data s)) = clearResults s"
    by (rule clearResults_displayResults)
  then have "displayResults L data (snd (displayResults L data s)) = displayResults L data s"
    by (rule displayResults_cleared)
  with c show ?thesis by simp
qed

theorem C7_render_twice_same_as_once_witness:
  "displayResults plainLocale (JArr [patternEntry, volatilityEntry])
     (snd (displayResults plainLocale (JArr [patternEntry, volatilityEntry]) pageLoad))
   = (Returned,
      \<lparr>resultsContainer = [ResultCard patternCard, ResultCard volatilityCard],
       chartContainer_display = ''block'',
       resultsChart = Some patternChart,
       liveCharts = {#patternChart#}\<rparr>)"
proof -
  have "displayResults plainLocale (JArr [patternEntry, volatilityEntry])
          (snd (displayResults plainLocale (JArr [patternEntry, volatilityEntry]) pageLoad))
        = displayResults plainLocale (JArr [patternEntry, volatilityEntry]) pageLoad"
    using C7_render_twice_same_as_once [of plainLocale "JArr [patternEntry, volatilityEntry]" pageLoad]
    by blast
  then show ?thesis
    by (simp add: displayResults_samples clearResults_def pageLoad_def)
qed

lemma chartInv_clearResults:
  "chartInv s \<Longrightarrow> chartInv (clearResults s) \<and> liveCharts (clearResults s) = {#}"
  by (cases "resultsChart s") (simp_all add: chartInv_def clearResults_liveCharts)

lemma chartInv_displayResults:
  assumes "chartInv s"
  shows "chartInv (snd (displayResults L data s))"
proof -
  from chartInv_clearResults [OF assms] have e: "liveCharts (clearResults s) = {#}" by simp
  from displayResults_state [of L data s] show ?thesis
  proof (elim disjE exE)
    fix R
    assume "snd (displayResults L data s) = (clearResults s)\<lparr>resultsContainer := R\<rparr>"
    then show ?thesis by (simp add: chartInv_def e)
  next
    fix R c
    assume "snd (displayResults L data s) =
        (clearResults s)\<lparr>resultsContainer := R, chartContainer_display := ''block'',
           liveCharts := liveCharts (clearResults s) + {#c#}, resultsChart := Some c\<rparr>"
    then show ?thesis by (simp add: chartInv_def e)
  qed
qed

lemma errorMessage_plainLocale: "errorMessage plainLocale data = ''TypeError''"
  by (simp add: plainLocale_def)

lemma chartInv_caught: "chartInv (caught msg s) = chartInv s"
  by (simp add: chartInv_def caught_def)

lemma chartInv_perform: "chartInv s \<Longrightarrow> chartInv (perform L s a)"
proof (cases a)
  case Clear
  assume "chartInv s"
  from chartInv_clearResults [OF this] show ?thesis by (simp add: Clear)
next
  case (Render data)
  assume "chartInv s"
  then have i: "chartInv (snd (displayResults L data s))" by (rule chartInv_displayResults)
  obtain r s' where d: "displayResults L data s = (r, s')" by (cases "displayResults L data s")
  with i have "chartInv s'" by simp
  then show ?thesis by (cases r) (simp_all add: Render d chartInv_caught)
next
  case (Failed msg)
  assume "chartInv s"
  then show ?thesis by (simp add: Failed chartInv_caught)
qed

lemma chartInv_run: "chartInv s \<Longrightarrow> chartInv (run L acts s)"
  unfolding run_def
  by (induction acts arbitrary: s) (simp_all add: chartInv_perform)

lemma chartInv_size: "chartInv s \<Longrightarrow> size (liveCharts s) \<le> 1"
  by (cases "resultsChart s") (simp_all add: chartInv_def)

text \<open>
  C8. On a page where the chart library holds exactly the chart that \<^verbatim>\<open>resultsChart\<close>
  refers to (as on the freshly loaded page, which holds none), this stays so after any
  sequence of \<^verbatim>\<open>clearResults\<close> and \<^verbatim>\<open>displayResults\<close> calls, the latter with the
  \<^verbatim>\<open>catch\<close> of their callers, and of failed submissions: at most one chart
  instance is live. A render constructs its chart on the cleared page, where the previous
  instance has been destroyed, the variable is \<^verbatim>\<open>null\<close> and no instance is live; after
  it, the only live instance is the one just constructed.
\<close>

theorem C8_at_most_one_live_chart:
  assumes "chartInv s0"
  shows "chartInv (run L acts s0)
       \<and> size (liveCharts (run L acts s0)) \<le> 1
       \<and> liveCharts (clearResults (run L acts s0)) = {#}
       \<and> resultsChart (clearResults (run L acts s0)) = None
       \<and> (\<forall>c. resultsChart (snd (displayResults L data (run L acts s0))) = Some c
              \<longrightarrow> liveCharts (snd (displayResults L data (run L acts s0))) = {#c#})
       \<and> (resultsChart (snd (displayResults L data (run L acts s0))) = None
              \<longrightarrow> liveCharts (snd (displayResults L data (run L acts s0))) = {#})"
proof -
  have i: "chartInv (run L acts s0)" using assms by (rule chartInv_run)
  then have j: "chartInv (snd (displayResults L data (run L acts s0)))"
    by (rule chartInv_displayResults)
  from i have "size (liveCharts (run L acts s0)) \<le> 1" by (rule chartInv_size)
  moreover from i have "liveCharts (clearResults (run L acts s0)) = {#}"
    using chartInv_clearResults by blast
  moreover from j have "\<forall>c. resultsChart (snd (displayResults L data (run L acts s0))) = Some c
              \<longrightarrow> liveCharts (snd (displayResults L data (run L acts s0))) = {#c#}"
    by (simp add: chartInv_def)
  moreover from j have "resultsChart (snd (displayResults L data (run L acts s0))) = None
              \<longrightarrow> liveCharts (snd (displayResults L data (run L acts s0))) = {#}"
    by (simp add: chartInv_def)
  ultimately show ?thesis using i by simp
qed

theorem C8_at_most_one_live_chart_witness:
  "chartInv pageLoad
   \<and> run plainLocale [Render (JArr [patternEntry, volatilityEntry]), Render (JArr [patternEntry, volatilityEntry])] pageLoad
       = \<lparr>resultsContainer = [ResultCard patternCard, ResultCard volatilityCard],
          chartContainer_display = ''block'', resultsChart = Some patternChart,
          liveCharts = {#patternChart#}\<rparr>
   \<and> size (liveCharts (run plainLocale
         [Render (JArr [patternEntry, volatilityEntry]), Render (JArr [patternEntry, volatilityEntry])] pageLoad)) \<le> 1
   \<and> liveCharts (run plainLocale
         [Render (JArr [patternEntry, volatilityEntry]), Clear, Render JNull] pageLoad) = {#}
   \<and> run plainLocale [Render (JArr [patternEntry, volatilityEntry]), Render JNull] pageLoad
       = \<lparr>resultsContainer = [Html ''<div class=\"error-message\">An error occurred: TypeError</div>''],
          chartContainer_display = ''none'', resultsChart = None, liveCharts = {#}\<rparr>"
proof -
  have p: "chartInv pageLoad" by (simp add: chartInv_def pageLoad_def)
  have r: "run plainLocale [Render (JArr [patternEntry, volatilityEntry]), Render (JArr [patternEntry, volatilityEntry])] pageLoad
       = \<lparr>resultsContainer = [ResultCard patternCard, ResultCard volatilityCard],
          chartContainer_display = ''block'', resultsChart = Some patternChart,
          liveCharts = {#patternChart#}\<rparr>"
    by (simp add: run_def displayResults_samples clearResults_def pageLoad_def)
  have s: "size (liveCharts (run plainLocale
         [Render (JArr [patternEntry, volatilityEntry]), Render (JArr [patternEntry, volatilityEntry])] pageLoad)) \<le> 1"
    using C8_at_most_one_live_chart [OF p, of plainLocale
        "[Render (JArr [patternEntry, volatilityEntry]), Render (JArr [patternEntry, volatilityEntry])]"]
    by blast
  have t: "liveCharts (run plainLocale
         [Render (JArr [patternEntry, volatilityEntry]), Clear, Render JNull] pageLoad) = {#}"
    by (simp add: run_def displayResults_samples displayResults_nullish clearResults_def pageLoad_def
          caught_def)
  have u: "run plainLocale [Render (JArr [patternEntry, volatilityEntry]), Render JNull] pageLoad
       = \<lparr>resultsContainer = [Html ''<div class=\"error-message\">An error occurred: TypeError</div>''],
          chartContainer_display = ''none'', resultsChart = None, liveCharts = {#}\<rparr>"
    by (simp add: run_def displayResults_samples displayResults_nullish clearResults_def pageLoad_def
          caught_def errorMessage_plainLocale)
  from p r s t u show ?thesis by blast
qed

section \<open>The shape of a toFixed result\<close>







section \<open>When displayResults throws\<close>

lemma primitive_stringable: "primitive v \<Longrightarrow> stringable v"
  by (cases v) simp_all

lemma primitive_localizable: "primitive v \<Longrightarrow> nullish v \<or> localizable v"
  by (cases v) simp_all

lemma primitive_coalesce: "primitive a \<Longrightarrow> primitive b \<Longrightarrow> primitive (coalesce a b)"
  by (cases a) simp_all

lemma primitive_field:
  assumes "list_all (\<lambda>p. primitive (snd p)) props"
  shows "primitive (field (JObj props) name)"
proof (cases "map_of props name")
  case None
  then show ?thesis by (simp add: field_def)
next
  case (Some v)
  then have "(name, v) \<in> set props" by (rule map_of_SomeD)
  with assms have "primitive v" by (auto simp add: list_all_iff)
  with Some show ?thesis by (simp add: field_def)
qed

lemma entryOK_scalarRecord: "scalarRecord item \<Longrightarrow> entryOK item"
proof (cases item)
  case (JObj props)
  assume "scalarRecord item"
  with JObj have p: "list_all (\<lambda>p. primitive (snd p)) props" by simp
  show ?thesis
    unfolding JObj entryOK_def
    using primitive_field [OF p]
    by (simp add: primitive_stringable primitive_localizable primitive_coalesce)
qed simp_all

lemma displayResults_outcome:
  "fst (displayResults L data s) = (if payloadOK data then Returned else Threw TypeError)"
proof (cases "nullish data")
  case True
  then show ?thesis by (simp add: displayResults_nullish payloadOK_def)
next
  case False
  then have g: "getProp data ''detail'' = Inr (field data ''detail'')"
    by (rule getProp_field)
  show ?thesis
  proof (cases "truthy (field data ''detail'')")
    case True
    show ?thesis
    proof (cases "stringable (field data ''detail'')")
      case s: True
      then obtain t where "ToString (field data ''detail'') = Inr t"
        using ToString_total(1) by blast
      from displayResults_error [OF g True this] False True s show ?thesis
        by (simp add: payloadOK_def)
    next
      case s: False
      then have "ToString (field data ''detail'') = Inl TypeError"
        by (rule ToString_not_stringable)
      with g False True s show ?thesis
        by (simp add: displayResults_def Let_def payloadOK_def)
    qed
  next
    case nt: False
    show ?thesis
    proof (cases "\<not> isArray data \<or> elements data = []")
      case True
      then have "list_all entryOK (elements data)"
        by (cases data) auto
      with displayResults_empty [OF g nt True] False nt show ?thesis
        by (simp add: payloadOK_def)
    next
      case na: False
      then obtain items where d: "data = JArr items" and ne: "items \<noteq> []"
        by (cases data) auto
      have "field (JArr items) ''detail'' = JUndefined" by (simp add: field_def)
      then show ?thesis
        unfolding d by (simp add: displayResults_array [OF ne] payloadOK_def)
    qed
  qed
qed

lemma theCard_empty_object: "theCard L (JObj []) = scoreOnlyCard ''Variance'' ''N/A''"
proof -
  have ok: "entryOK (JObj [])" by (simp add: entryOK_def field_def)
  show ?thesis
    by (rule card.equality)
       (simp_all add: cardFor_ok(2-10) [OF ok] scoreOnlyCard_def,
        simp_all add: field_def parse_undefined toFixed_NaN)
qed

section \<open>Prices and the score line\<close>





lemma parse_small:
  "parseFloatStr ''1'' = Fin 1" "parseFloatStr ''2'' = Fin 2"
  by (simp_all add: parse_eval roundF_numeral roundF_one)

lemma toFixed4_small:
  "toFixedNum 4 (Fin 1) = ''1.0000''" "toFixedNum 4 (Fin 2) = ''2.0000''"
  by (simp_all add: toFixed_eval)

lemma entryOK_scoreEntries:
  "entryOK hugeScoreEntry" "entryOK (nullSimilarityEntry v)"
  by (simp_all add: entryOK_def hugeScoreEntry_def nullSimilarityEntry_def field_def)



text \<open>
  C1 (what the code does). The price shown on a card is always the parsed number, printed
  with two decimals; the default of \<^verbatim>\<open>?? 0\<close> is never taken, because \<^verbatim>\<open>parseFloat\<close>
  returns a Number (possibly \<open>NaN\<close>) and never \<^verbatim>\<open>null\<close> or \<^verbatim>\<open>undefined\<close>. For an absent
  field the parsed string is \<^verbatim>\<open>undefined\<close>, the number is \<open>NaN\<close>, and the card reads
  \<^verbatim>\<open>NaN\<close>, not \<^verbatim>\<open>0.00\<close>.
\<close>

theorem C1_absent_price_shows_NaN:
  assumes "entryOK item"
  shows "(\<forall>name v t. getProp item name = Inr v \<and> ToString v = Inr t
            \<longrightarrow> priceOf item name = Inr (JNum (parseFloatStr t)))
       \<and> (\<forall>name. getProp item name = Inr JUndefined
            \<longrightarrow> priceOf item name = Inr (JNum NaN)
                \<and> bindE (priceOf item name) (toFixed 2) = Inr ''NaN'')
       \<and> (field item ''Open'' = JUndefined \<longrightarrow> open_text (theCard L item) = ''NaN'')
       \<and> (field item ''High'' = JUndefined \<longrightarrow> high_text (theCard L item) = ''NaN'')
       \<and> (field item ''Low'' = JUndefined \<longrightarrow> low_text (theCard L item) = ''NaN'')
       \<and> (field item ''Close'' = JUndefined \<longrightarrow> close_text (theCard L item) = ''NaN'')"
proof -
  have a: "\<forall>name v t. getProp item name = Inr v \<and> ToString v = Inr t
            \<longrightarrow> priceOf item name = Inr (JNum (parseFloatStr t))"
    by (simp add: priceOf_def parseFloat_def)
  have b: "\<forall>name. getProp item name = Inr JUndefined
            \<longrightarrow> priceOf item name = Inr (JNum NaN)
                \<and> bindE (priceOf item name) (toFixed 2) = Inr ''NaN''"
    by (simp add: priceOf_def parseFloat_def parse_undefined toFixed_NaN)
  have c: "field item ''Open'' = JUndefined \<longrightarrow> open_text (theCard L item) = ''NaN''"
    "field item ''High'' = JUndefined \<longrightarrow> high_text (theCard L item) = ''NaN''"
    "field item ''Low'' = JUndefined \<longrightarrow> low_text (theCard L item) = ''NaN''"
    "field item ''Close'' = JUndefined \<longrightarrow> close_text (theCard L item) = ''NaN''"
    by (simp_all add: cardFor_ok(4-7) [OF assms] parse_undefined toFixed_NaN)
  from a b c show ?thesis by blast
qed

theorem C1_absent_price_shows_NaN_witness:
  "field volatilityEntry ''Open'' = JUndefined
   \<and> field volatilityEntry ''Variance'' = JNum (Fin (1 / 2))
   \<and> open_text (theCard plainLocale volatilityEntry) = ''NaN''
   \<and> high_text (theCard plainLocale volatilityEntry) = ''NaN''
   \<and> low_text (theCard plainLocale volatilityEntry) = ''NaN''
   \<and> close_text (theCard plainLocale volatilityEntry) = ''NaN''
   \<and> displayResults plainLocale (JArr [volatilityEntry]) pageLoad =
       (Returned,
        \<lparr>resultsContainer =
           [ResultCard \<lparr>date_text = ''2020-01-02'', rank_text = ''2'', open_text = ''NaN'',
                        high_text = ''NaN'', low_text = ''NaN'', close_text = ''NaN'',
                        volume_text = ''N/A'', scoreType_text = ''Variance'',
                        score_text = ''0.5000''\<rparr>],
         chartContainer_display = ''none'', resultsChart = None, liveCharts = {#}\<rparr>)"
proof -
  have f: "field volatilityEntry ''Open'' = JUndefined" "field volatilityEntry ''High'' = JUndefined"
    "field volatilityEntry ''Low'' = JUndefined" "field volatilityEntry ''Close'' = JUndefined"
    "field volatilityEntry ''Variance'' = JNum (Fin (1 / 2))"
    by (simp_all add: volatilityEntry_def field_def)
  note t = C1_absent_price_shows_NaN [OF entryOK_volatilityEntry, of plainLocale]
  from t f have n: "open_text (theCard plainLocale volatilityEntry) = ''NaN''"
    "high_text (theCard plainLocale volatilityEntry) = ''NaN''"
    "low_text (theCard plainLocale volatilityEntry) = ''NaN''"
    "close_text (theCard plainLocale volatilityEntry) = ''NaN''"
    by blast+
  have d: "displayResults plainLocale (JArr [volatilityEntry]) pageLoad =
       (Returned,
        \<lparr>resultsContainer =
           [ResultCard \<lparr>date_text = ''2020-01-02'', rank_text = ''2'', open_text = ''NaN'',
                        high_text = ''NaN'', low_text = ''NaN'', close_text = ''NaN'',
                        volume_text = ''N/A'', scoreType_text = ''Variance'',
                        score_text = ''0.5000''\<rparr>],
         chartContainer_display = ''none'', resultsChart = None, liveCharts = {#}\<rparr>)"
    by (simp add: displayResults_array entryOK_volatilityEntry hasOpen_samples
          theCard_volatilityEntry volatilityCard_def clearResults_def pageLoad_def)
  from f n d show ?thesis by blast
qed




text \<open>
  C10 (what the code does). Line 112 chooses the label by \<^verbatim>\<open>item.Similarity !== undefined\<close>,
  line 113 the value by \<^verbatim>\<open>item.Similarity ?? item.Variance\<close>. For an item whose
  \<^verbatim>\<open>Similarity\<close> is \<^verbatim>\<open>null\<close> the two tests disagree: the label is \<^verbatim>\<open>Similarity\<close>, and
  the score under it is the one of \<^verbatim>\<open>Variance\<close> (the number parsed from it, printed by
  \<^verbatim>\<open>toFixed(4)\<close>), or the marker \<^verbatim>\<open>N/A\<close> when \<^verbatim>\<open>Variance\<close> is absent. So
  \<^verbatim>\<open>Variance\<close> is not ignored when both fields are defined.
\<close>

theorem C10_null_similarity_shows_variance:
  assumes "\<not> nullish item" and "field item ''Similarity'' = JNull"
  shows "(\<forall>t. field item ''Variance'' \<noteq> JUndefined \<and> ToString (field item ''Variance'') = Inr t
            \<longrightarrow> scoreOf item = Inr (''Similarity'', toFixedNum 4 (parseFloatStr t)))
       \<and> (field item ''Variance'' = JUndefined \<longrightarrow> scoreOf item = Inr (''Similarity'', ''N/A''))
       \<and> (entryOK item \<longrightarrow> scoreType_text (theCard L item) = ''Similarity''
            \<and> score_text (theCard L item) =
                (if field item ''Variance'' = JUndefined then ''N/A''
                 else toFixedNum 4 (parseFloatStr (projr (ToString (field item ''Variance''))))))"
proof -
  have c: "coalesce (field item ''Similarity'') (field item ''Variance'') = field item ''Variance''"
    by (simp add: assms(2))
  have a: "\<forall>t. field item ''Variance'' \<noteq> JUndefined \<and> ToString (field item ''Variance'') = Inr t
            \<longrightarrow> scoreOf item = Inr (''Similarity'', toFixedNum 4 (parseFloatStr t))"
  proof (intro allI impI)
    fix t
    assume h: "field item ''Variance'' \<noteq> JUndefined \<and> ToString (field item ''Variance'') = Inr t"
    then have s: "stringable (field item ''Variance'')"
      using ToString_total(1) [of "field item ''Variance''"] by auto
    from h show "scoreOf item = Inr (''Similarity'', toFixedNum 4 (parseFloatStr t))"
      by (simp add: scoreOf_eq [OF assms(1)] c s assms(2))
  qed
  have b: "field item ''Variance'' = JUndefined \<longrightarrow> scoreOf item = Inr (''Similarity'', ''N/A'')"
    by (simp add: scoreOf_eq [OF assms(1)] c assms(2))
  have d: "entryOK item \<longrightarrow> scoreType_text (theCard L item) = ''Similarity''
            \<and> score_text (theCard L item) =
                (if field item ''Variance'' = JUndefined then ''N/A''
                 else toFixedNum 4 (parseFloatStr (projr (ToString (field item ''Variance'')))))"
  proof
    assume ok: "entryOK item"
    show "scoreType_text (theCard L item) = ''Similarity''
            \<and> score_text (theCard L item) =
                (if field item ''Variance'' = JUndefined then ''N/A''
                 else toFixedNum 4 (parseFloatStr (projr (ToString (field item ''Variance'')))))"
      by (simp add: cardFor_ok(9,10) [OF ok] c assms(2))
  qed
  from a b d show ?thesis by blast
qed

theorem C10_null_similarity_shows_variance_witness:
  "field (nullSimilarityEntry (1 / 2)) ''Similarity'' = JNull
   \<and> field (nullSimilarityEntry (1 / 2)) ''Variance'' = JNum (Fin (1 / 2))
   \<and> scoreOf (nullSimilarityEntry (1 / 2)) = Inr (''Similarity'', ''0.5000'')
   \<and> scoreOf (nullSimilarityEntry 1) = Inr (''Similarity'', ''1.0000'')
   \<and> scoreType_text (theCard plainLocale (nullSimilarityEntry 1)) = ''Similarity''
   \<and> score_text (theCard plainLocale (nullSimilarityEntry 1)) = ''1.0000''
   \<and> scoreOf (JObj [(''Similarity'', JNull)]) = Inr (''Similarity'', ''N/A'')"
proof -
  have f: "field (nullSimilarityEntry (1 / 2)) ''Similarity'' = JNull"
    "field (nullSimilarityEntry (1 / 2)) ''Variance'' = JNum (Fin (1 / 2))"
    "field (nullSimilarityEntry 1) ''Similarity'' = JNull"
    "field (nullSimilarityEntry 1) ''Variance'' = JNum (Fin 1)"
    "field (JObj [(''Similarity'', JNull)]) ''Similarity'' = JNull"
    "field (JObj [(''Similarity'', JNull)]) ''Variance'' = JUndefined"
    by (simp_all add: nullSimilarityEntry_def field_def)
  have n: "\<not> nullish (nullSimilarityEntry (1 / 2))" "\<not> nullish (nullSimilarityEntry 1)"
    "\<not> nullish (JObj [(''Similarity'', JNull)])"
    by (simp_all add: nullSimilarityEntry_def)
  have s: "ToString (JNum (Fin (1 / 2))) = Inr ''0.5''" "ToString (JNum (Fin 1)) = Inr ''1''"
    by (simp_all add: numToString_half numToString_1)
  from C10_null_similarity_shows_variance [OF n(1) f(1), of plainLocale] f(2) s(1)
  have a: "scoreOf (nullSimilarityEntry (1 / 2)) = Inr (''Similarity'', ''0.5000'')"
    by (simp add: parse_half toFixed4_half)
  note t = C10_null_similarity_shows_variance [OF n(2) f(3), of plainLocale]
  from t f(4) s(2)
  have b: "scoreOf (nullSimilarityEntry 1) = Inr (''Similarity'', ''1.0000'')"
    by (simp add: parse_small toFixed4_small)
  from t f(4) s(2) entryOK_scoreEntries(2) [of 1]
  have c: "scoreType_text (theCard plainLocale (nullSimilarityEntry 1)) = ''Similarity''"
    "score_text (theCard plainLocale (nullSimilarityEntry 1)) = ''1.0000''"
    by (simp_all add: parse_small toFixed4_small)
  from C10_null_similarity_shows_variance [OF n(3) f(5), of plainLocale] f(6)
  have d: "scoreOf (JObj [(''Similarity'', JNull)]) = Inr (''Similarity'', ''N/A'')"
    by simp
  from f(1,2) a b c d show ?thesis by blast
qed

section \<open>The payloads on which displayResults throws\<close>

lemma stringable_iff: "stringable v = (\<exists>t. ToString v = Inr t)"
  using ToString_total(1) [of v] by auto

lemma localizable_iff: "localizable v = (\<exists>t. toLocaleString L v = Inr t)"
  using toLocaleString_total(1) [of v L] by auto

lemma card_markers:
  assumes "entryOK item"
  shows "nullish (field item ''Rank'') \<Longrightarrow> rank_text (theCard L item) = ''N/A''"
    and "nullish (field item ''Date'') \<Longrightarrow> date_text (theCard L item) = ''N/A''"
    and "nullish (field item ''Volume'') \<Longrightarrow> volume_text (theCard L item) = ''N/A''"
    and "nullish (field item ''Similarity'') \<Longrightarrow> field item ''Variance'' = JUndefined \<Longrightarrow>
           score_text (theCard L item) = ''N/A''"
  by (simp_all add: cardFor_ok(2-10) [OF assms] coalesce_def)

lemma displayResults_cards:
  assumes "items \<noteq> []" and "list_all entryOK items"
  shows "resultsContainer (snd (displayResults L (JArr items) s)) =
           map (\<lambda>i. ResultCard (theCard L i)) items"
  using assms(2) by (simp add: displayResults_array [OF assms(1)])

text \<open>
  C3 (amended). \<^verbatim>\<open>displayResults\<close> returns without an exception exactly on the payloads
  that pass \<open>payloadOK\<close>, and throws a TypeError on every other one. \<open>payloadOK\<close> asks
  that the payload is not \<^verbatim>\<open>null\<close> or \<^verbatim>\<open>undefined\<close>; that a truthy \<^verbatim>\<open>detail\<close>
  converts to a string without an exception; and, with a falsy \<^verbatim>\<open>detail\<close>, that every
  element of an array payload passes \<open>entryOK\<close>: the element is not \<^verbatim>\<open>null\<close> or
  \<^verbatim>\<open>undefined\<close>, the values of \<^verbatim>\<open>Open\<close>, \<^verbatim>\<open>High\<close>, \<^verbatim>\<open>Low\<close>, \<^verbatim>\<open>Close\<close>,
  \<^verbatim>\<open>Date\<close>, \<^verbatim>\<open>Rank\<close> and of \<^verbatim>\<open>Similarity ?? Variance\<close> convert to strings without
  an exception, and \<^verbatim>\<open>Volume\<close> is \<^verbatim>\<open>null\<close>, \<^verbatim>\<open>undefined\<close> or a value whose
  \<^verbatim>\<open>toLocaleString()\<close> call does not throw. Here \<open>stringable\<close> and \<open>localizable\<close> are
  exactly the values on which the two conversions return. Fields that the callback does
  not read play no part. Any number, string or boolean, any object with a falsy
  \<^verbatim>\<open>detail\<close>, and any array of records whose fields are scalars qualify. On an array on
  which it returns, there is one card for each entry, and a rank, a date or a volume that is
  absent or \<^verbatim>\<open>null\<close> shows the marker \<^verbatim>\<open>N/A\<close>, as does the score when \<^verbatim>\<open>Similarity\<close> is
  absent or \<^verbatim>\<open>null\<close> and \<^verbatim>\<open>Variance\<close> is absent.
\<close>

theorem C3_throws_exactly_on_bad_payloads:
  "fst (displayResults L data s) = (if payloadOK data then Returned else Threw TypeError)
   \<and> (\<forall>v. stringable v = (\<exists>t. ToString v = Inr t))
   \<and> (\<forall>v. localizable v = (\<exists>t. toLocaleString L v = Inr t))
   \<and> (primitive data \<and> \<not> nullish data \<longrightarrow> payloadOK data)
   \<and> (\<forall>props. data = JObj props \<and> \<not> truthy (field data ''detail'') \<longrightarrow> payloadOK data)
   \<and> (\<forall>items. data = JArr items \<and> list_all scalarRecord items \<longrightarrow> payloadOK data)
   \<and> (\<forall>items. data = JArr items \<and> items \<noteq> [] \<and> payloadOK data \<longrightarrow>
        resultsContainer (snd (displayResults L data s)) = map (\<lambda>i. ResultCard (theCard L i)) items
        \<and> (\<forall>i \<in> set items.
              (nullish (field i ''Rank'') \<longrightarrow> rank_text (theCard L i) = ''N/A'')
            \<and> (nullish (field i ''Date'') \<longrightarrow> date_text (theCard L i) = ''N/A'')
            \<and> (nullish (field i ''Volume'') \<longrightarrow> volume_text (theCard L i) = ''N/A'')
            \<and> (nullish (field i ''Similarity'') \<and> field i ''Variance'' = JUndefined
                 \<longrightarrow> score_text (theCard L i) = ''N/A'')))"
proof -
  have a: "primitive data \<and> \<not> nullish data \<longrightarrow> payloadOK data"
    by (cases data) (simp_all add: payloadOK_def field_def)
  have b: "\<forall>props. data = JObj props \<and> \<not> truthy (field data ''detail'') \<longrightarrow> payloadOK data"
    by (auto simp add: payloadOK_def)
  have c: "\<forall>items. data = JArr items \<and> list_all scalarRecord items \<longrightarrow> payloadOK data"
    by (auto simp add: payloadOK_def field_def list_all_iff entryOK_scalarRecord)
  have d: "\<forall>items. data = JArr items \<and> items \<noteq> [] \<and> payloadOK data \<longrightarrow>
        resultsContainer (snd (displayResults L data s)) = map (\<lambda>i. ResultCard (theCard L i)) items
        \<and> (\<forall>i \<in> set items.
              (nullish (field i ''Rank'') \<longrightarrow> rank_text (theCard L i) = ''N/A'')
            \<and> (nullish (field i ''Date'') \<longrightarrow> date_text (theCard L i) = ''N/A'')
            \<and> (nullish (field i ''Volume'') \<longrightarrow> volume_text (theCard L i) = ''N/A'')
            \<and> (nullish (field i ''Similarity'') \<and> field i ''Variance'' = JUndefined
                 \<longrightarrow> score_text (theCard L i) = ''N/A''))"
  proof (intro allI impI)
    fix items
    assume h: "data = JArr items \<and> items \<noteq> [] \<and> payloadOK data"
    then have dd: "data = JArr items" and pk: "payloadOK data" by blast+
    from pk have ok: "list_all entryOK items"
      unfolding dd by (simp add: payloadOK_def field_def)
    from h have ne: "items \<noteq> []" by simp
    have r: "resultsContainer (snd (displayResults L (JArr items) s)) =
        map (\<lambda>i. ResultCard (theCard L i)) items"
      using ne ok by (rule displayResults_cards)
    have m: "\<forall>i \<in> set items.
              (nullish (field i ''Rank'') \<longrightarrow> rank_text (theCard L i) = ''N/A'')
            \<and> (nullish (field i ''Date'') \<longrightarrow> date_text (theCard L i) = ''N/A'')
            \<and> (nullish (field i ''Volume'') \<longrightarrow> volume_text (theCard L i) = ''N/A'')
            \<and> (nullish (field i ''Similarity'') \<and> field i ''Variance'' = JUndefined
                 \<longrightarrow> score_text (theCard L i) = ''N/A'')"
    proof
      fix i
      assume "i \<in> set items"
      with ok have e: "entryOK i" by (simp add: list_all_iff)
      show "(nullish (field i ''Rank'') \<longrightarrow> rank_text (theCard L i) = ''N/A'')
            \<and> (nullish (field i ''Date'') \<longrightarrow> date_text (theCard L i) = ''N/A'')
            \<and> (nullish (field i ''Volume'') \<longrightarrow> volume_text (theCard L i) = ''N/A'')
            \<and> (nullish (field i ''Similarity'') \<and> field i ''Variance'' = JUndefined
                 \<longrightarrow> score_text (theCard L i) = ''N/A'')"
        using card_markers [OF e, of L] by blast
    qed
    from dd r m show "resultsContainer (snd (displayResults L data s)) =
          map (\<lambda>i. ResultCard (theCard L i)) items
        \<and> (\<forall>i \<in> set items.
              (nullish (field i ''Rank'') \<longrightarrow> rank_text (theCard L i) = ''N/A'')
            \<and> (nullish (field i ''Date'') \<longrightarrow> date_text (theCard L i) = ''N/A'')
            \<and> (nullish (field i ''Volume'') \<longrightarrow> volume_text (theCard L i) = ''N/A'')
            \<and> (nullish (field i ''Similarity'') \<and> field i ''Variance'' = JUndefined
                 \<longrightarrow> score_text (theCard L i) = ''N/A''))"
      by simp
  qed
  have e: "\<forall>v. stringable v = (\<exists>t. ToString v = Inr t)"
    by (simp add: stringable_iff)
  have f: "\<forall>v. localizable v = (\<exists>t. toLocaleString L v = Inr t)"
    using localizable_iff by blast
  have o: "fst (displayResults L data s) = (if payloadOK data then Returned else Threw TypeError)"
    by (rule displayResults_outcome)
  show ?thesis
    apply (intro conjI)
          apply (rule o)
         apply (rule e)
        apply (rule f)
       apply (rule a)
      apply (rule b)
     apply (rule c)
    apply (rule d)
    done
qed

theorem C3_throws_exactly_on_bad_payloads_witness:
  "fst (displayResults plainLocale (JArr [patternEntry, volatilityEntry]) pageLoad) = Returned
   \<and> fst (displayResults plainLocale (JStr ''<html>'') pageLoad) = Returned
   \<and> fst (displayResults plainLocale (JArr [JObj [(''Volume'', JNull)]]) pageLoad) = Returned
   \<and> resultsContainer (snd (displayResults plainLocale (JArr [JObj [(''Volume'', JNull)]]) pageLoad))
       = [ResultCard (theCard plainLocale (JObj [(''Volume'', JNull)]))]
   \<and> rank_text (theCard plainLocale (JObj [(''Volume'', JNull)])) = ''N/A''
   \<and> date_text (theCard plainLocale (JObj [(''Volume'', JNull)])) = ''N/A''
   \<and> volume_text (theCard plainLocale (JObj [(''Volume'', JNull)])) = ''N/A''
   \<and> score_text (theCard plainLocale (JObj [(''Volume'', JNull)])) = ''N/A''
   \<and> fst (displayResults plainLocale (JArr [JObj [(''Date'', JObj [(''toString'', JNull)])]]) pageLoad)
       = Threw TypeError
   \<and> fst (displayResults plainLocale (JArr [JObj [(''Volume'', JObj [(''toLocaleString'', JNull)])]]) pageLoad)
       = Threw TypeError
   \<and> fst (displayResults plainLocale (JArr [JObj [(''foo'', JObj [(''toString'', JNull)])]]) pageLoad)
       = Returned"
proof -
  have p1: "payloadOK (JArr [patternEntry, volatilityEntry])"
    by (simp add: payloadOK_def field_def entryOK_patternEntry entryOK_volatilityEntry)
  have p2: "payloadOK (JStr ''<html>'')"
    by (simp add: payloadOK_def field_def)
  have p3: "payloadOK (JArr [JObj [(''Volume'', JNull)]])"
    by (simp add: payloadOK_def field_def entryOK_def)
  have p4: "\<not> payloadOK (JArr [JObj [(''Date'', JObj [(''toString'', JNull)])]])"
    by (simp add: payloadOK_def field_def entryOK_def)
  have p5: "\<not> payloadOK (JArr [JObj [(''Volume'', JObj [(''toLocaleString'', JNull)])]])"
    by (simp add: payloadOK_def field_def entryOK_def)
  have p6: "payloadOK (JArr [JObj [(''foo'', JObj [(''toString'', JNull)])]])"
    by (simp add: payloadOK_def field_def entryOK_def)
  have n: "nullish (field (JObj [(''Volume'', JNull)]) ''Rank'')"
    "nullish (field (JObj [(''Volume'', JNull)]) ''Date'')"
    "nullish (field (JObj [(''Volume'', JNull)]) ''Volume'')"
    "nullish (field (JObj [(''Volume'', JNull)]) ''Similarity'')"
    "field (JObj [(''Volume'', JNull)]) ''Variance'' = JUndefined"
    by (simp_all add: field_def)
  from C3_throws_exactly_on_bad_payloads [of plainLocale "JArr [patternEntry, volatilityEntry]" pageLoad] p1
  have a: "fst (displayResults plainLocale (JArr [patternEntry, volatilityEntry]) pageLoad) = Returned"
    by simp
  from C3_throws_exactly_on_bad_payloads [of plainLocale "JStr ''<html>''" pageLoad] p2
  have b: "fst (displayResults plainLocale (JStr ''<html>'') pageLoad) = Returned"
    by simp
  note t = C3_throws_exactly_on_bad_payloads [of plainLocale "JArr [JObj [(''Volume'', JNull)]]" pageLoad]
  from t p3
  have c: "fst (displayResults plainLocale (JArr [JObj [(''Volume'', JNull)]]) pageLoad) = Returned"
    by simp
  from t p3
  have r: "resultsContainer (snd (displayResults plainLocale (JArr [JObj [(''Volume'', JNull)]]) pageLoad))
       = [ResultCard (theCard plainLocale (JObj [(''Volume'', JNull)]))]"
    by simp
  from t p3 n
  have m: "rank_text (theCard plainLocale (JObj [(''Volume'', JNull)])) = ''N/A''"
    "date_text (theCard plainLocale (JObj [(''Volume'', JNull)])) = ''N/A''"
    "volume_text (theCard plainLocale (JObj [(''Volume'', JNull)])) = ''N/A''"
    "score_text (theCard plainLocale (JObj [(''Volume'', JNull)])) = ''N/A''"
    by simp_all
  from C3_throws_exactly_on_bad_payloads
    [of plainLocale "JArr [JObj [(''Date'', JObj [(''toString'', JNull)])]]" pageLoad] p4
  have d: "fst (displayResults plainLocale (JArr [JObj [(''Date'', JObj [(''toString'', JNull)])]]) pageLoad)
       = Threw TypeError"
    by simp
  from C3_throws_exactly_on_bad_payloads
    [of plainLocale "JArr [JObj [(''Volume'', JObj [(''toLocaleString'', JNull)])]]" pageLoad] p5
  have e: "fst (displayResults plainLocale (JArr [JObj [(''Volume'', JObj [(''toLocaleString'', JNull)])]]) pageLoad)
       = Threw TypeError"
    by simp
  from C3_throws_exactly_on_bad_payloads
    [of plainLocale "JArr [JObj [(''foo'', JObj [(''toString'', JNull)])]]" pageLoad] p6
  have f: "fst (displayResults plainLocale (JArr [JObj [(''foo'', JObj [(''toString'', JNull)])]]) pageLoad)
       = Returned"
    by simp
  from a b c r m d e f show ?thesis by blast
qed

text \<open>
  C3 as stated fails: an array holding \<^verbatim>\<open>null\<close> makes the callback read
  \<^verbatim>\<open>item.Rank\<close> of \<^verbatim>\<open>null\<close>, which throws; the page is left cleared.
\<close>

theorem C3_null_entry_counterexample:
  "displayResults plainLocale (JArr [JNull]) pageLoad =
     (Threw TypeError, \<lparr>resultsContainer = [], chartContainer_display = ''none'',
                        resultsChart = None, liveCharts = {#}\<rparr>)"
  by (simp add: displayResults_array entryOK_def clearResults_def pageLoad_def)

section \<open>The error message of the payload\<close>

lemma displayResults_falsy_detail:
  assumes "getProp data ''detail'' = Inr detail" and "\<not> truthy detail"
  shows "resultsContainer (snd (displayResults L data s)) = [Html ''<p>No results found.</p>'']
       \<or> (\<exists>items. resultsContainer (snd (displayResults L data s)) =
             map (\<lambda>i. ResultCard (theCard L i)) items)"
proof (cases "\<not> isArray data \<or> elements data = []")
  case True
  from displayResults_empty [OF assms True] show ?thesis by simp
next
  case False
  then obtain items where d: "data = JArr items" and ne: "items \<noteq> []"
    by (cases data) auto
  show ?thesis
    unfolding d displayResults_array [OF ne] by auto
qed

text \<open>
  C2 (amended). Whenever \<^verbatim>\<open>data.detail\<close> is truthy and converts to a string (every
  non-empty string does, and converts to itself), \<^verbatim>\<open>displayResults\<close> returns, and what
  it has written into the results container is one assignment, of the markup
  \<^verbatim>\<open><div class="error-message">\<close> followed by that text as it is, not escaped, and
  \<^verbatim>\<open></div>\<close>; no result card is appended, the chart container is hidden and no chart is
  held. This holds for a payload that is not an array too, so the branch comes before the
  array check (which would have written the no-results placeholder). When
  \<^verbatim>\<open>data.detail\<close> is falsy, no such markup is written, whatever the text.
\<close>

theorem C2_error_detail_rendered:
  assumes "getProp data ''detail'' = Inr detail"
  shows "(\<forall>t. truthy detail \<and> ToString detail = Inr t \<longrightarrow>
            displayResults L data s =
              (Returned, (clearResults s)\<lparr>resultsContainer := [Html (''<div class=\"error-message\">'' @ t @ ''</div>'')]\<rparr>)
          \<and> resultsContainer (snd (displayResults L data s)) = [Html (''<div class=\"error-message\">'' @ t @ ''</div>'')]
          \<and> markupWritten (snd (displayResults L data s)) = ''<div class=\"error-message\">'' @ t @ ''</div>''
          \<and> chartContainer_display (snd (displayResults L data s)) = ''none''
          \<and> resultsChart (snd (displayResults L data s)) = None)
       \<and> (\<forall>x. detail = JStr x \<and> x \<noteq> [] \<longrightarrow> truthy detail \<and> ToString detail = Inr x)
       \<and> (\<not> truthy detail \<longrightarrow>
            (\<forall>t. Html (''<div class=\"error-message\">'' @ t @ ''</div>'')
                   \<notin> set (resultsContainer (snd (displayResults L data s)))))"
proof -
  have a: "\<forall>t. truthy detail \<and> ToString detail = Inr t \<longrightarrow>
            displayResults L data s =
              (Returned, (clearResults s)\<lparr>resultsContainer := [Html (''<div class=\"error-message\">'' @ t @ ''</div>'')]\<rparr>)
          \<and> resultsContainer (snd (displayResults L data s)) = [Html (''<div class=\"error-message\">'' @ t @ ''</div>'')]
          \<and> markupWritten (snd (displayResults L data s)) = ''<div class=\"error-message\">'' @ t @ ''</div>''
          \<and> chartContainer_display (snd (displayResults L data s)) = ''none''
          \<and> resultsChart (snd (displayResults L data s)) = None"
  proof (intro allI impI)
    fix t
    assume h: "truthy detail \<and> ToString detail = Inr t"
    then have "displayResults L data s =
      (Returned, (clearResults s)\<lparr>resultsContainer := [Html (''<div class=\"error-message\">'' @ t @ ''</div>'')]\<rparr>)"
      using displayResults_error [OF assms, of t L s] by simp
    then show "displayResults L data s =
              (Returned, (clearResults s)\<lparr>resultsContainer := [Html (''<div class=\"error-message\">'' @ t @ ''</div>'')]\<rparr>)
          \<and> resultsContainer (snd (displayResults L data s)) = [Html (''<div class=\"error-message\">'' @ t @ ''</div>'')]
          \<and> markupWritten (snd (displayResults L data s)) = ''<div class=\"error-message\">'' @ t @ ''</div>''
          \<and> chartContainer_display (snd (displayResults L data s)) = ''none''
          \<and> resultsChart (snd (displayResults L data s)) = None"
      by (simp add: markupWritten_def)
  qed
  have b: "\<forall>x. detail = JStr x \<and> x \<noteq> [] \<longrightarrow> truthy detail \<and> ToString detail = Inr x"
    by auto
  have c: "\<not> truthy detail \<longrightarrow>
            (\<forall>t. Html (''<div class=\"error-message\">'' @ t @ ''</div>'')
                   \<notin> set (resultsContainer (snd (displayResults L data s))))"
  proof (intro impI allI)
    fix t
    assume "\<not> truthy detail"
    from displayResults_falsy_detail [OF assms this, of L s]
    show "Html (''<div class=\"error-message\">'' @ t @ ''</div>'')
                   \<notin> set (resultsContainer (snd (displayResults L data s)))"
      by auto
  qed
  from a b c show ?thesis by blast
qed

theorem C2_error_detail_rendered_witness:
  "displayResults plainLocale (JObj [(''detail'', JStr ''Date not found'')]) pageLoad =
     (Returned, \<lparr>resultsContainer = [Html ''<div class=\"error-message\">Date not found</div>''],
                 chartContainer_display = ''none'', resultsChart = None, liveCharts = {#}\<rparr>)
   \<and> markupWritten (snd (displayResults plainLocale (JObj [(''detail'', JStr ''Date not found'')]) pageLoad))
       = ''<div class=\"error-message\">Date not found</div>''
   \<and> Html ''<div class=\"error-message\">0</div>''
       \<notin> set (resultsContainer (snd (displayResults plainLocale (JObj [(''detail'', JNum (Fin 0))]) pageLoad)))"
proof -
  have g: "getProp (JObj [(''detail'', JStr ''Date not found'')]) ''detail'' = Inr (JStr ''Date not found'')"
    by simp
  have t: "truthy (JStr ''Date not found'')" by simp
  have c: "ToString (JStr ''Date not found'') = Inr ''Date not found''" by simp
  note w = C2_error_detail_rendered [OF g, of plainLocale pageLoad]
  from w t c
  have a: "displayResults plainLocale (JObj [(''detail'', JStr ''Date not found'')]) pageLoad =
     (Returned, (clearResults pageLoad)\<lparr>resultsContainer := [Html (''<div class=\"error-message\">'' @ ''Date not found'' @ ''</div>'')]\<rparr>)"
    by blast
  from w t c
  have b: "markupWritten (snd (displayResults plainLocale (JObj [(''detail'', JStr ''Date not found'')]) pageLoad))
       = ''<div class=\"error-message\">'' @ ''Date not found'' @ ''</div>''"
    by blast
  have g0: "getProp (JObj [(''detail'', JNum (Fin 0))]) ''detail'' = Inr (JNum (Fin 0))"
    by simp
  have f0: "\<not> truthy (JNum (Fin 0))" by simp
  from C2_error_detail_rendered [OF g0, of plainLocale pageLoad] f0
  have "Html (''<div class=\"error-message\">'' @ ''0'' @ ''</div>'')
       \<notin> set (resultsContainer (snd (displayResults plainLocale (JObj [(''detail'', JNum (Fin 0))]) pageLoad)))"
    by blast
  then have d: "Html ''<div class=\"error-message\">0</div>''
       \<notin> set (resultsContainer (snd (displayResults plainLocale (JObj [(''detail'', JNum (Fin 0))]) pageLoad)))"
    by simp
  from a have a': "displayResults plainLocale (JObj [(''detail'', JStr ''Date not found'')]) pageLoad =
     (Returned, \<lparr>resultsContainer = [Html ''<div class=\"error-message\">Date not found</div>''],
                 chartContainer_display = ''none'', resultsChart = None, liveCharts = {#}\<rparr>)"
    by (simp add: clearResults_def pageLoad_def)
  from b have b': "markupWritten (snd (displayResults plainLocale (JObj [(''detail'', JStr ''Date not found'')]) pageLoad))
       = ''<div class=\"error-message\">Date not found</div>''"
    by simp
  from a' b' d show ?thesis by blast
qed

text \<open>
  C2 as stated fails twice. A \<^verbatim>\<open>detail\<close> field that is present but falsy (here the
  empty string) does not reach the error branch: the no-results placeholder is written
  instead. And a \<^verbatim>\<open>detail\<close> text that holds markup is written as it is: for the text
  \<^verbatim>\<open>a</div><div class="error-message">b\<close> the markup written is that of two error
  elements, one with the text \<^verbatim>\<open>a\<close> and one with the text \<^verbatim>\<open>b\<close>, and neither
  holds the detail text.
\<close>

theorem C2_empty_detail_counterexample:
  "displayResults plainLocale (JObj [(''detail'', JStr [])]) pageLoad =
     (Returned, \<lparr>resultsContainer = [Html ''<p>No results found.</p>''],
                 chartContainer_display = ''none'', resultsChart = None, liveCharts = {#}\<rparr>)
   \<and> displayResults plainLocale
       (JObj [(''detail'', JStr ''a</div><div class=\"error-message\">b'')]) pageLoad =
     (Returned, \<lparr>resultsContainer =
                   [Html (''<div class=\"error-message\">a</div>'' @ ''<div class=\"error-message\">b</div>'')],
                 chartContainer_display = ''none'', resultsChart = None, liveCharts = {#}\<rparr>)"
  by (simp add: displayResults_def Let_def clearResults_def pageLoad_def)

end
